theory Spec2Isabelle
  imports Complex_Main "HOL-Library.Log_Nat"
begin

section \<open>Python values\<close>

subsection \<open>Strings\<close>

text \<open>
  A Python \<open>str\<close> is a sequence of Unicode code points: slicing (\<open>s[:50]\<close>) and
  \<open>len\<close> count code points, so a string is modelled as the list of its code points.
  ASCII literals of the source are written through \<open>ascii\<close>; the Cyrillic and emoji
  literals are given by their code points, with a transliteration in the text before them.
\<close>

type_synonym pystr = "nat list"

definition ascii :: "string \<Rightarrow> pystr" where
  "ascii s = map of_char s"

text \<open>\<open>str.lower\<close>, on the ASCII letters (the class names of \<open>schemas.py\<close> are ASCII).\<close>

definition str_lower :: "pystr \<Rightarrow> pystr" where
  "str_lower s = map (\<lambda>c. if 65 \<le> c \<and> c \<le> 90 then c + 32 else c) s"

subsection \<open>Floats\<close>

text \<open>
  A Python \<open>float\<close> is an IEEE 754 binary64 value. The finite ones are rationals; the
  two zeros are identified: they compare equal and a division by either raises, so the
  model loses only the sign of a zero result. \<open>fl\<close> rounds a rational to the nearest
  binary64 value, ties to even: 53 significant bits, least exponent \<open>-1074\<close> (gradual
  underflow), overflow to infinity from \<open>2^1024\<close> on.
\<close>

datatype pyfloat = Finite rat | PosInf | NegInf | NaN

definition round_half_even :: "rat \<Rightarrow> int" where
  "round_half_even x =
     (let f = \<lfloor>x\<rfloor>; d = x - of_int f
      in if d < 1 / 2 then f
         else if 1 / 2 < d then f + 1
         else if even f then f else f + 1)"

text \<open>The exponent \<open>e\<close> with \<open>2^e \<le> a < 2^(e+1)\<close>, for \<open>a > 0\<close>.\<close>

definition floor_log2 :: "rat \<Rightarrow> int" where
  "floor_log2 a =
     (let (p, q) = quotient_of a; d = bitlen p - bitlen q
      in if 2 powi d \<le> a then d else d - 1)"

definition fl :: "rat \<Rightarrow> pyfloat" where
  "fl x =
     (if x = 0 then Finite 0
      else
        let a = \<bar>x\<bar>;
            e = floor_log2 a;
            q = max e (- 1022) - 52;
            r = of_int (round_half_even (a / 2 powi q)) * 2 powi q
        in if 2 powi 1024 \<le> r then (if 0 < x then PosInf else NegInf)
           else Finite (if 0 < x then r else - r))"

text \<open>The spacing of the binary64 values around \<open>a\<close>, the unit \<open>fl\<close> rounds to.\<close>

definition ulp :: "rat \<Rightarrow> rat" where
  "ulp a = 2 powi (max (floor_log2 a) (- 1022) - 52)"

text \<open>The negation of a float, exact.\<close>

fun float_neg :: "pyfloat \<Rightarrow> pyfloat" where
  "float_neg (Finite r) = Finite (- r)"
| "float_neg PosInf = NegInf"
| "float_neg NegInf = PosInf"
| "float_neg NaN = NaN"

text \<open>
  The comparisons \<open>x < c\<close> and \<open>x <= c\<close> of a float with a numeric constant: exact, and
  false whenever \<open>x\<close> is NaN.
\<close>

fun float_lt :: "pyfloat \<Rightarrow> rat \<Rightarrow> bool" where
  "float_lt (Finite x) c = (x < c)"
| "float_lt NegInf c = True"
| "float_lt PosInf c = False"
| "float_lt NaN c = False"

fun float_le :: "pyfloat \<Rightarrow> rat \<Rightarrow> bool" where
  "float_le (Finite x) c = (x \<le> c)"
| "float_le NegInf c = True"
| "float_le PosInf c = False"
| "float_le NaN c = False"

text \<open>\<open>x * y\<close> on floats: never raises; overflow gives an infinity.\<close>

fun float_mul :: "pyfloat \<Rightarrow> pyfloat \<Rightarrow> pyfloat" where
  "float_mul NaN y = NaN"
| "float_mul x NaN = NaN"
| "float_mul (Finite a) (Finite b) = fl (a * b)"
| "float_mul (Finite a) PosInf = (if a = 0 then NaN else if 0 < a then PosInf else NegInf)"
| "float_mul (Finite a) NegInf = (if a = 0 then NaN else if 0 < a then NegInf else PosInf)"
| "float_mul PosInf (Finite b) = (if b = 0 then NaN else if 0 < b then PosInf else NegInf)"
| "float_mul NegInf (Finite b) = (if b = 0 then NaN else if 0 < b then NegInf else PosInf)"
| "float_mul PosInf PosInf = PosInf"
| "float_mul PosInf NegInf = NegInf"
| "float_mul NegInf PosInf = NegInf"
| "float_mul NegInf NegInf = PosInf"

text \<open>
  \<open>x / y\<close> on floats: a zero divisor raises \<open>ZeroDivisionError\<close> (the value \<open>None\<close>
  here, turned into the exception by the caller); otherwise the IEEE quotient.
\<close>

fun float_div :: "pyfloat \<Rightarrow> pyfloat \<Rightarrow> pyfloat option" where
  "float_div x (Finite b) =
     (if b = 0 then None
      else Some (case x of
          Finite a \<Rightarrow> fl (a / b)
        | PosInf \<Rightarrow> (if 0 < b then PosInf else NegInf)
        | NegInf \<Rightarrow> (if 0 < b then NegInf else PosInf)
        | NaN \<Rightarrow> NaN))"
| "float_div x NaN = Some NaN"
| "float_div (Finite a) y = Some (Finite 0)"
| "float_div NaN y = Some NaN"
| "float_div x y = Some NaN"

text \<open>
  \<open>round(x, 1)\<close>: infinities and NaN round to themselves; a finite value is rounded
  to one decimal on its exact value, ties to even, and the decimal is converted back to
  the nearest float.
\<close>

fun py_round1 :: "pyfloat \<Rightarrow> pyfloat" where
  "py_round1 (Finite x) = fl (of_int (round_half_even (x * 10)) / 10)"
| "py_round1 x = x"

subsection \<open>JSON-like values and dictionaries\<close>

datatype pyval = PNone | PBool bool | PInt int | PFloat pyfloat | PStr pystr

text \<open>
  A Python \<open>dict\<close> with string keys (a handler's result, a stored document), in
  insertion order.
\<close>

type_synonym pydict = "(pystr \<times> pyval) list"

text \<open>\<open>d.get(k)\<close> and \<open>d.get(k, default)\<close>.\<close>

definition dict_get :: "pydict \<Rightarrow> pystr \<Rightarrow> pyval" where
  "dict_get d k = (case map_of d k of None \<Rightarrow> PNone | Some v \<Rightarrow> v)"

definition dict_get_default :: "pydict \<Rightarrow> pystr \<Rightarrow> pyval \<Rightarrow> pyval" where
  "dict_get_default d k dflt = (case map_of d k of None \<Rightarrow> dflt | Some v \<Rightarrow> v)"

subsection \<open>Exceptions\<close>

text \<open>
  The exceptions that leave a route. \<open>RequestValidationError\<close> and
  \<open>ResponseValidationError\<close> are raised by the framework when the request body does not
  fit the annotated model, or the handler's result the declared \<open>response_model\<close>;
  \<open>ValueError\<close> is raised when the framework renders as JSON a result that holds an
  infinity or a NaN, for which JSON has no notation.
\<close>

datatype pyexn =
    HTTPException int pystr
  | ZeroDivisionError
  | RequestValidationError
  | ResponseValidationError
  | ValueError

text \<open>The HTTP status the client sees: an exception no handler catches is a 500.\<close>

fun status_code :: "pyexn \<Rightarrow> int" where
  "status_code (HTTPException s d) = s"
| "status_code RequestValidationError = 422"
| "status_code ZeroDivisionError = 500"
| "status_code ResponseValidationError = 500"
| "status_code ValueError = 500"

section \<open>Schemas (\<open>schemas.py\<close>)\<close>

text \<open>
  The validated models. A request body is modelled with every field optional
  (\<open>None\<close>: the key is absent) and every present field of its declared JSON type;
  validation enforces what the \<open>Field\<close> declarations add: required fields, the default
  and the range of \<open>rating\<close>.
\<close>

record Testimonial =
  name :: pystr
  "procedure" :: "pystr option"
  rating :: int
  "text" :: pystr
  city :: "pystr option"

record Testimonial_body =
  name :: "pystr option"
  "procedure" :: "pystr option"
  rating :: "int option"
  "text" :: "pystr option"
  city :: "pystr option"

record ContactMessage =
  name :: pystr
  email :: "pystr option"
  phone :: "pystr option"
  message :: pystr

record Surgery =
  name :: pystr
  "type" :: pystr
  description :: "pystr option"

text \<open>
  \<open>Testimonial\<close>: \<open>name\<close> and \<open>text\<close> are required (\<open>Field(...)\<close>), \<open>rating\<close> is
  \<open>Field(5, ge=1, le=5)\<close>; a default is not validated, and 5 is in range anyway.
\<close>

definition validate_Testimonial :: "Testimonial_body \<Rightarrow> pyexn + Testimonial" where
  "validate_Testimonial b =
     (case (Testimonial_body.name b, Testimonial_body.text b) of
        (Some n, Some t) \<Rightarrow>
          (let r = (case Testimonial_body.rating b of None \<Rightarrow> 5 | Some r \<Rightarrow> r)
           in if 1 \<le> r \<and> r \<le> 5
              then Inr \<lparr>Testimonial.name = n,
                        procedure = Testimonial_body.procedure b,
                        rating = r, text = t,
                        city = Testimonial_body.city b\<rparr>
              else Inl RequestValidationError)
      | _ \<Rightarrow> Inl RequestValidationError)"

text \<open>
  \<open>Surgery\<close> as a response model: \<open>name\<close> and \<open>type\<close> must be strings,
  \<open>description\<close> a string or \<open>None\<close> (its default when the key is absent). What
  the validation does with a value that is neither a string nor \<open>None\<close> depends on the
  pydantic release (version 1 converts numbers to their text, version 2 rejects them),
  which the sources do not fix: it is the parameter \<open>coerce\<close>.
\<close>

definition str_field :: "(pyval \<Rightarrow> pystr option) \<Rightarrow> pyval option \<Rightarrow> pystr option" where
  "str_field coerce v =
     (case v of
        None \<Rightarrow> None
      | Some PNone \<Rightarrow> None
      | Some (PStr s) \<Rightarrow> Some s
      | Some x \<Rightarrow> coerce x)"

definition validate_Surgery :: "(pyval \<Rightarrow> pystr option) \<Rightarrow> pydict \<Rightarrow> Surgery option" where
  "validate_Surgery coerce d =
     (case (str_field coerce (map_of d (ascii ''name'')),
            str_field coerce (map_of d (ascii ''type''))) of
        (Some n, Some t) \<Rightarrow>
          (case map_of d (ascii ''description'') of
             None \<Rightarrow> Some \<lparr>Surgery.name = n, type = t, description = None\<rparr>
           | Some PNone \<Rightarrow> Some \<lparr>Surgery.name = n, type = t, description = None\<rparr>
           | Some x \<Rightarrow>
               (case str_field coerce (Some x) of
                  None \<Rightarrow> None
                | Some s \<Rightarrow> Some \<lparr>Surgery.name = n, type = t, description = Some s\<rparr>))
      | _ \<Rightarrow> None)"

text \<open>The entity classes, and the collection each is kept in.\<close>

definition Testimonial_class :: pystr where "Testimonial_class = ascii ''Testimonial''"
definition BeforeAfter_class :: pystr where "BeforeAfter_class = ascii ''BeforeAfter''"
definition ContactMessage_class :: pystr where "ContactMessage_class = ascii ''ContactMessage''"
definition Surgery_class :: pystr where "Surgery_class = ascii ''Surgery''"

section \<open>The store gateway (\<open>from database import db, create_document, get_documents\<close>)\<close>

text \<open>
  The module \<open>database\<close> is a parameter of every handler: \<open>db\<close> is the connection
  handle or \<open>None\<close>, and each call takes the state \<open>'w\<close> of the external store and
  returns the new one, with either the result or \<open>Inl m\<close> when the call raised an
  exception \<open>e\<close> with \<open>str(e) = m\<close>. The second argument of \<open>create_document\<close> is the
  validated model, that of \<open>get_documents\<close> the keyword argument \<open>limit\<close> (\<open>None\<close>
  when the call gives none).
\<close>

datatype model = TestimonialM Testimonial | ContactMessageM ContactMessage

record ('h, 'w) database_module =
  db :: "'h option"
  create_document :: "pystr \<Rightarrow> model \<Rightarrow> 'w \<Rightarrow> (pystr + pystr) \<times> 'w"
  get_documents :: "pystr \<Rightarrow> int option \<Rightarrow> 'w \<Rightarrow> (pystr + pydict list) \<times> 'w"
  list_collection_names :: "'h \<Rightarrow> 'w \<Rightarrow> (pystr + pystr list) \<times> 'w"

section \<open>The handlers (\<open>main.py\<close>)\<close>

subsection \<open>\<open>GET /api/surgeries\<close>\<close>

text \<open>
  The curated default list: the names and descriptions are the Russian literals of the
  source, as code points. Transliterated, name and description:
  \<^enum> Laparoskopicheskoe rukavnoe gastroshuntirovanie; Snizhenie vesa za schyot
    umensheniya obyoma zheludka
  \<^enum> Gastroshuntirovanie po Ru; Kombinirovannaya metodika dlya stoikogo snizheniya
    massy tela
  \<^enum> Ustanovka vnutrizheludochnogo ballona; Vremennaya metodika dlya korrektsii vesa
  \<^enum> Kholetsistektomiya (udalenie zhelchnogo puzyrya); Laparoskopicheskoe udalenie pri
    zhelchnokamennoi bolezni
  \<^enum> Gryzhesechenie (pakhovye, pupochnye, ventralnye); Sovremennye setchatye implanty
    i nadyozhnaya fiksatsiya
  \<^enum> Appendektomiya; Maloinvazivnoe udalenie appendiksa
\<close>

definition default_name_1 :: pystr where
  "default_name_1 =
     [1051, 1072, 1087, 1072, 1088, 1086, 1089, 1082, 1086, 1087, 1080, 1095, 1077, 1089, 1082,
     1086, 1077, 32, 1088, 1091, 1082, 1072, 1074, 1085, 1086, 1077, 32, 1075, 1072, 1089, 1090,
     1088, 1086, 1096, 1091, 1085, 1090, 1080, 1088, 1086, 1074, 1072, 1085, 1080, 1077]"

definition default_description_1 :: pystr where
  "default_description_1 =
     [1057, 1085, 1080, 1078, 1077, 1085, 1080, 1077, 32, 1074, 1077, 1089, 1072, 32, 1079, 1072,
     32, 1089, 1095, 1105, 1090, 32, 1091, 1084, 1077, 1085, 1100, 1096, 1077, 1085, 1080, 1103,
     32, 1086, 1073, 1098, 1105, 1084, 1072, 32, 1078, 1077, 1083, 1091, 1076, 1082, 1072]"

definition default_name_2 :: pystr where
  "default_name_2 =
     [1043, 1072, 1089, 1090, 1088, 1086, 1096, 1091, 1085, 1090, 1080, 1088, 1086, 1074, 1072,
     1085, 1080, 1077, 32, 1087, 1086, 32, 1056, 1091]"

definition default_description_2 :: pystr where
  "default_description_2 =
     [1050, 1086, 1084, 1073, 1080, 1085, 1080, 1088, 1086, 1074, 1072, 1085, 1085, 1072, 1103,
     32, 1084, 1077, 1090, 1086, 1076, 1080, 1082, 1072, 32, 1076, 1083, 1103, 32, 1089, 1090,
     1086, 1081, 1082, 1086, 1075, 1086, 32, 1089, 1085, 1080, 1078, 1077, 1085, 1080, 1103, 32,
     1084, 1072, 1089, 1089, 1099, 32, 1090, 1077, 1083, 1072]"

definition default_name_3 :: pystr where
  "default_name_3 =
     [1059, 1089, 1090, 1072, 1085, 1086, 1074, 1082, 1072, 32, 1074, 1085, 1091, 1090, 1088,
     1080, 1078, 1077, 1083, 1091, 1076, 1086, 1095, 1085, 1086, 1075, 1086, 32, 1073, 1072,
     1083, 1083, 1086, 1085, 1072]"

definition default_description_3 :: pystr where
  "default_description_3 =
     [1042, 1088, 1077, 1084, 1077, 1085, 1085, 1072, 1103, 32, 1084, 1077, 1090, 1086, 1076,
     1080, 1082, 1072, 32, 1076, 1083, 1103, 32, 1082, 1086, 1088, 1088, 1077, 1082, 1094, 1080,
     1080, 32, 1074, 1077, 1089, 1072]"

definition default_name_4 :: pystr where
  "default_name_4 =
     [1061, 1086, 1083, 1077, 1094, 1080, 1089, 1090, 1101, 1082, 1090, 1086, 1084, 1080, 1103,
     32, 40, 1091, 1076, 1072, 1083, 1077, 1085, 1080, 1077, 32, 1078, 1077, 1083, 1095, 1085,
     1086, 1075, 1086, 32, 1087, 1091, 1079, 1099, 1088, 1103, 41]"

definition default_description_4 :: pystr where
  "default_description_4 =
     [1051, 1072, 1087, 1072, 1088, 1086, 1089, 1082, 1086, 1087, 1080, 1095, 1077, 1089, 1082,
     1086, 1077, 32, 1091, 1076, 1072, 1083, 1077, 1085, 1080, 1077, 32, 1087, 1088, 1080, 32,
     1078, 1077, 1083, 1095, 1085, 1086, 1082, 1072, 1084, 1077, 1085, 1085, 1086, 1081, 32,
     1073, 1086, 1083, 1077, 1079, 1085, 1080]"

definition default_name_5 :: pystr where
  "default_name_5 =
     [1043, 1088, 1099, 1078, 1077, 1089, 1077, 1095, 1077, 1085, 1080, 1077, 32, 40, 1087, 1072,
     1093, 1086, 1074, 1099, 1077, 44, 32, 1087, 1091, 1087, 1086, 1095, 1085, 1099, 1077, 44,
     32, 1074, 1077, 1085, 1090, 1088, 1072, 1083, 1100, 1085, 1099, 1077, 41]"

definition default_description_5 :: pystr where
  "default_description_5 =
     [1057, 1086, 1074, 1088, 1077, 1084, 1077, 1085, 1085, 1099, 1077, 32, 1089, 1077, 1090,
     1095, 1072, 1090, 1099, 1077, 32, 1080, 1084, 1087, 1083, 1072, 1085, 1090, 1099, 32, 1080,
     32, 1085, 1072, 1076, 1105, 1078, 1085, 1072, 1103, 32, 1092, 1080, 1082, 1089, 1072, 1094,
     1080, 1103]"

definition default_name_6 :: pystr where
  "default_name_6 =
     [1040, 1087, 1087, 1077, 1085, 1076, 1101, 1082, 1090, 1086, 1084, 1080, 1103]"

definition default_description_6 :: pystr where
  "default_description_6 =
     [1052, 1072, 1083, 1086, 1080, 1085, 1074, 1072, 1079, 1080, 1074, 1085, 1086, 1077, 32,
     1091, 1076, 1072, 1083, 1077, 1085, 1080, 1077, 32, 1072, 1087, 1087, 1077, 1085, 1076,
     1080, 1082, 1089, 1072]"

definition default_surgeries :: "pydict list" where
  "default_surgeries =
     [[(ascii ''name'', PStr default_name_1), (ascii ''type'', PStr (ascii ''bariatric'')),
       (ascii ''description'', PStr default_description_1)],
      [(ascii ''name'', PStr default_name_2), (ascii ''type'', PStr (ascii ''bariatric'')),
       (ascii ''description'', PStr default_description_2)],
      [(ascii ''name'', PStr default_name_3), (ascii ''type'', PStr (ascii ''bariatric'')),
       (ascii ''description'', PStr default_description_3)],
      [(ascii ''name'', PStr default_name_4), (ascii ''type'', PStr (ascii ''general'')),
       (ascii ''description'', PStr default_description_4)],
      [(ascii ''name'', PStr default_name_5), (ascii ''type'', PStr (ascii ''general'')),
       (ascii ''description'', PStr default_description_5)],
      [(ascii ''name'', PStr default_name_6), (ascii ''type'', PStr (ascii ''general'')),
       (ascii ''description'', PStr default_description_6)]]"

definition surgery_projection :: "pydict \<Rightarrow> pydict" where
  "surgery_projection i =
     [(ascii ''name'', dict_get i (ascii ''name'')),
      (ascii ''type'', dict_get i (ascii ''type'')),
      (ascii ''description'', dict_get i (ascii ''description''))]"

text \<open>
  The \<open>try\<close> block gives the projected items or the exception; an exception and an
  empty list both fall through to the default list.
\<close>

definition list_surgeries :: "('h, 'w) database_module \<Rightarrow> 'w \<Rightarrow> pydict list \<times> 'w" where
  "list_surgeries g w =
     (case (case db g of
              None \<Rightarrow> (Inr [], w)
            | Some h \<Rightarrow>
                (case get_documents g (ascii ''surgery'') None w of
                   (Inl e, w') \<Rightarrow> (Inl e, w')
                 | (Inr items, w') \<Rightarrow> (Inr (map surgery_projection items), w')))
      of (Inr items, w') \<Rightarrow> if items \<noteq> [] then (items, w') else (default_surgeries, w')
       | (Inl e, w') \<Rightarrow> (default_surgeries, w'))"

text \<open>
  The route: \<open>response_model=List[Surgery]\<close> makes the framework validate what the
  handler returned; a result that does not fit is a \<open>ResponseValidationError\<close>.
\<close>

definition surgeries_route ::
  "(pyval \<Rightarrow> pystr option) \<Rightarrow> ('h, 'w) database_module \<Rightarrow> 'w \<Rightarrow> (pyexn + Surgery list) \<times> 'w" where
  "surgeries_route coerce g w =
     (case list_surgeries g w of
        (items, w') \<Rightarrow>
          (case those (map (validate_Surgery coerce) items) of
             None \<Rightarrow> (Inl ResponseValidationError, w')
           | Some xs \<Rightarrow> (Inr xs, w')))"

subsection \<open>\<open>GET /api/testimonials\<close> and \<open>POST /api/testimonials\<close>\<close>

definition testimonial_projection :: "pydict \<Rightarrow> pydict" where
  "testimonial_projection i =
     [(ascii ''name'', dict_get i (ascii ''name'')),
      (ascii ''procedure'', dict_get i (ascii ''procedure'')),
      (ascii ''rating'', dict_get_default i (ascii ''rating'') (PInt 5)),
      (ascii ''text'', dict_get i (ascii ''text'')),
      (ascii ''city'', dict_get i (ascii ''city''))]"

text \<open>The argument is the query parameter \<open>limit\<close>; \<open>None\<close> takes the default 12.\<close>

definition get_testimonials ::
  "('h, 'w) database_module \<Rightarrow> int option \<Rightarrow> 'w \<Rightarrow> (pyexn + pydict list) \<times> 'w" where
  "get_testimonials g limit_arg w =
     (let limit = (case limit_arg of None \<Rightarrow> 12 | Some l \<Rightarrow> l)
      in case db g of
           None \<Rightarrow> (Inr [], w)
         | Some h \<Rightarrow>
             (case get_documents g (ascii ''testimonial'') (Some limit) w of
                (Inr items, w') \<Rightarrow> (Inr (map testimonial_projection items), w')
              | (Inl e, w') \<Rightarrow> (Inl (HTTPException 500 e), w')))"

definition create_testimonial ::
  "('h, 'w) database_module \<Rightarrow> Testimonial \<Rightarrow> 'w \<Rightarrow> (pyexn + pydict) \<times> 'w" where
  "create_testimonial g payload w =
     (case db g of
        None \<Rightarrow> (Inl (HTTPException 500 (ascii ''Database not available'')), w)
      | Some h \<Rightarrow>
          (case create_document g (ascii ''testimonial'') (TestimonialM payload) w of
             (Inr new_id, w') \<Rightarrow> (Inr [(ascii ''id'', PStr new_id), (ascii ''ok'', PBool True)], w')
           | (Inl e, w') \<Rightarrow> (Inl (HTTPException 500 e), w')))"

text \<open>
  The route: the body is validated against \<open>Testimonial\<close> before the handler is
  called; a body that does not fit never reaches it.
\<close>

definition testimonials_post_route ::
  "('h, 'w) database_module \<Rightarrow> Testimonial_body \<Rightarrow> 'w \<Rightarrow> (pyexn + pydict) \<times> 'w" where
  "testimonials_post_route g body w =
     (case validate_Testimonial body of
        Inl e \<Rightarrow> (Inl e, w)
      | Inr payload \<Rightarrow> create_testimonial g payload w)"

subsection \<open>\<open>GET /api/before-after\<close>\<close>

definition before_after_projection :: "pydict \<Rightarrow> pydict" where
  "before_after_projection i =
     [(ascii ''patient_code'', dict_get i (ascii ''patient_code'')),
      (ascii ''procedure'', dict_get i (ascii ''procedure'')),
      (ascii ''weight_before'', dict_get i (ascii ''weight_before'')),
      (ascii ''weight_after'', dict_get i (ascii ''weight_after'')),
      (ascii ''description'', dict_get i (ascii ''description'')),
      (ascii ''image_before_url'', dict_get i (ascii ''image_before_url'')),
      (ascii ''image_after_url'', dict_get i (ascii ''image_after_url''))]"

definition get_before_after ::
  "('h, 'w) database_module \<Rightarrow> int option \<Rightarrow> 'w \<Rightarrow> (pyexn + pydict list) \<times> 'w" where
  "get_before_after g limit_arg w =
     (let limit = (case limit_arg of None \<Rightarrow> 12 | Some l \<Rightarrow> l)
      in case db g of
           None \<Rightarrow> (Inr [], w)
         | Some h \<Rightarrow>
             (case get_documents g (ascii ''beforeafter'') (Some limit) w of
                (Inr items, w') \<Rightarrow> (Inr (map before_after_projection items), w')
              | (Inl e, w') \<Rightarrow> (Inl (HTTPException 500 e), w')))"

subsection \<open>\<open>POST /api/contact\<close>\<close>

definition send_contact ::
  "('h, 'w) database_module \<Rightarrow> ContactMessage \<Rightarrow> 'w \<Rightarrow> (pyexn + pydict) \<times> 'w" where
  "send_contact g payload w =
     (case db g of
        None \<Rightarrow> (Inr [(ascii ''ok'', PBool True), (ascii ''stored'', PBool False)], w)
      | Some h \<Rightarrow>
          (case create_document g (ascii ''contactmessage'') (ContactMessageM payload) w of
             (Inr new_id, w') \<Rightarrow>
               (Inr [(ascii ''ok'', PBool True), (ascii ''id'', PStr new_id),
                     (ascii ''stored'', PBool True)], w')
           | (Inl e, w') \<Rightarrow> (Inl (HTTPException 500 e), w')))"

subsection \<open>\<open>POST /api/bmi\<close>\<close>

record BMIQuery =
  height_cm :: pyfloat
  weight_kg :: pyfloat

text \<open>
  The six labels. Transliterated: Nedostatochnaya massa (underweight), Norma (normal),
  Izbytochnaya massa (overweight), Ozhirenie I/II/III stepeni (obesity class I/II/III).
\<close>

definition label_underweight :: pystr where
  "label_underweight =
     [1053, 1077, 1076, 1086, 1089, 1090, 1072, 1090, 1086, 1095, 1085, 1072, 1103, 32,
      1084, 1072, 1089, 1089, 1072]"

definition label_normal :: pystr where
  "label_normal = [1053, 1086, 1088, 1084, 1072]"

definition label_overweight :: pystr where
  "label_overweight =
     [1048, 1079, 1073, 1099, 1090, 1086, 1095, 1085, 1072, 1103, 32, 1084, 1072, 1089,
      1089, 1072]"

definition label_obesity_1 :: pystr where
  "label_obesity_1 =
     [1054, 1078, 1080, 1088, 1077, 1085, 1080, 1077, 32, 73, 32, 1089, 1090, 1077, 1087,
      1077, 1085, 1080]"

definition label_obesity_2 :: pystr where
  "label_obesity_2 =
     [1054, 1078, 1080, 1088, 1077, 1085, 1080, 1077, 32, 73, 73, 32, 1089, 1090, 1077,
      1087, 1077, 1085, 1080]"

definition label_obesity_3 :: pystr where
  "label_obesity_3 =
     [1054, 1078, 1080, 1088, 1077, 1085, 1080, 1077, 32, 73, 73, 73, 32, 1089, 1090,
      1077, 1087, 1077, 1085, 1080]"

definition bmi_category :: "pyfloat \<Rightarrow> pystr" where
  "bmi_category bmi =
     (if float_lt bmi (37 / 2) then label_underweight
      else if float_lt bmi 25 then label_normal
      else if float_lt bmi 30 then label_overweight
      else if float_lt bmi 35 then label_obesity_1
      else if float_lt bmi 40 then label_obesity_2
      else label_obesity_3)"

text \<open>
  The two divisions can raise \<open>ZeroDivisionError\<close>; the handler catches nothing, so the
  exception leaves the route.
\<close>

definition bmi_calc :: "BMIQuery \<Rightarrow> pyexn + pydict" where
  "bmi_calc data =
     (case float_div (height_cm data) (Finite 100) of
        None \<Rightarrow> Inl ZeroDivisionError
      | Some h_m \<Rightarrow>
          if float_le h_m 0
          then Inl (HTTPException 400 (ascii ''Height must be greater than 0''))
          else (case float_div (weight_kg data) (float_mul h_m h_m) of
                  None \<Rightarrow> Inl ZeroDivisionError
                | Some bmi \<Rightarrow>
                    Inr [(ascii ''bmi'', PFloat (py_round1 bmi)),
                         (ascii ''category'', PStr (bmi_category bmi))]))"

text \<open>
  The route: the handler's exceptions pass through, and its result is rendered as JSON,
  which fails on a float that is not finite.
\<close>

definition json_compliant :: "pyval \<Rightarrow> bool" where
  "json_compliant v =
     (case v of
        PFloat (Finite x) \<Rightarrow> True
      | PFloat _ \<Rightarrow> False
      | _ \<Rightarrow> True)"

definition bmi_route :: "BMIQuery \<Rightarrow> pyexn + pydict" where
  "bmi_route data =
     (case bmi_calc data of
        Inl e \<Rightarrow> Inl e
      | Inr body \<Rightarrow>
          if list_all (\<lambda>(k, v). json_compliant v) body then Inr body else Inl ValueError)"

subsection \<open>\<open>GET /test\<close>\<close>

text \<open>
  The status object; \<open>None\<close> in \<open>database_url\<close> and \<open>database_name\<close> is Python's
  \<open>None\<close>. The status strings start with an emoji: U+2705 (check mark), U+274C (cross
  mark), U+26A0 U+FE0F (warning sign).
\<close>

record status_response =
  backend :: pystr
  database :: pystr
  database_url :: "pystr option"
  database_name :: "pystr option"
  connection_status :: pystr
  collections :: "pystr list"

text \<open>
  The truth value of \<open>os.getenv(k)\<close> (\<open>None\<close> and the empty string are false), and
  \<open>os.getenv(k) or d\<close>.
\<close>

definition truthy :: "pystr option \<Rightarrow> bool" where
  "truthy v = (case v of None \<Rightarrow> False | Some s \<Rightarrow> s \<noteq> [])"

definition py_or :: "pystr option \<Rightarrow> pystr \<Rightarrow> pystr" where
  "py_or v d = (case v of None \<Rightarrow> d | Some s \<Rightarrow> if s \<noteq> [] then s else d)"

text \<open>
  \<open>getenv\<close> is the process environment. The inner \<open>try\<close> catches what
  \<open>list_collection_names\<close> raises; the outer one would catch anything else raised in
  its body, and nothing there can raise.
\<close>

definition test_database ::
  "('h, 'w) database_module \<Rightarrow> (pystr \<Rightarrow> pystr option) \<Rightarrow> 'w \<Rightarrow> status_response \<times> 'w" where
  "test_database g getenv w =
     (let response =
            \<lparr>backend = [9989, 32] @ ascii ''Running'',
             database = [10060, 32] @ ascii ''Not Available'',
             database_url = None,
             database_name = None,
             connection_status = ascii ''Not Connected'',
             collections = []\<rparr>
      in case (case db g of
                 Some h \<Rightarrow>
                   (let response = response
                          \<lparr>database := [9989, 32] @ ascii ''Available'',
                           database_url :=
                             Some (if truthy (getenv (ascii ''DATABASE_URL''))
                                   then [9989, 32] @ ascii ''Set''
                                   else [10060, 32] @ ascii ''Not Set''),
                           database_name :=
                             Some (py_or (getenv (ascii ''DATABASE_NAME''))
                                     ([10060, 32] @ ascii ''Not Set'')),
                           connection_status := ascii ''Connected''\<rparr>
                    in case list_collection_names g h w of
                         (Inr names, w') \<Rightarrow>
                           (Inr (response
                              \<lparr>collections := take 10 names,
                               database := [9989, 32] @ ascii ''Connected & Working''\<rparr>), w')
                       | (Inl e, w') \<Rightarrow>
                           (Inr (response
                              \<lparr>database :=
                                 [9888, 65039, 32, 32] @ ascii ''Connected but Error: ''
                                   @ take 50 e\<rparr>), w'))
               | None \<Rightarrow>
                   (Inr (response
                      \<lparr>database :=
                         [9888, 65039, 32, 32] @ ascii ''Available but not initialized''\<rparr>), w))
         of (Inr r, w') \<Rightarrow> (r, w')
          | (Inl e, w') \<Rightarrow>
              (response\<lparr>database := [10060, 32] @ ascii ''Error: '' @ take 50 e\<rparr>, w'))"

section \<open>Observing the store accesses\<close>

text \<open>
  \<open>traced g\<close> is the gateway \<open>g\<close> with a log beside the store's state: every call
  appends the operation and the collection it names.
\<close>

datatype access = Insert pystr | Fetch pystr | ListCollections

definition traced :: "('h, 'w) database_module \<Rightarrow> ('h, 'w \<times> access list) database_module" where
  "traced g =
     \<lparr>db = db g,
      create_document = (\<lambda>c m (w, tr).
         case create_document g c m w of (r, w') \<Rightarrow> (r, (w', tr @ [Insert c]))),
      get_documents = (\<lambda>c l (w, tr).
         case get_documents g c l w of (r, w') \<Rightarrow> (r, (w', tr @ [Fetch c]))),
      list_collection_names = (\<lambda>h (w, tr).
         case list_collection_names g h w of (r, w') \<Rightarrow> (r, (w', tr @ [ListCollections])))\<rparr>"

section \<open>A document store\<close>

text \<open>
  Modelled from the spec: the module \<open>database\<close> (\<open>db\<close>, \<open>create_document\<close>,
  \<open>get_documents\<close>) is not among the sources. The spec's gateway has two operations.
  Insert: given a collection name and a validated record, persist it and return a
  generated unique identifier; it fails with a store error if the connection is unusable.
  Fetch: given a collection name and a maximum count, return up to that many stored
  records in the store's natural (insertion) order; it fails with a store error if
  unusable. The persisted record is the model's fields under their names.
\<close>

record store =
  usable :: bool
  stored :: "(pystr \<times> pydict list) list"
  next_id :: nat

definition opt_str :: "pystr option \<Rightarrow> pyval" where
  "opt_str v = (case v of None \<Rightarrow> PNone | Some s \<Rightarrow> PStr s)"

fun model_dump :: "model \<Rightarrow> pydict" where
  "model_dump (TestimonialM t) =
     [(ascii ''name'', PStr (Testimonial.name t)),
      (ascii ''procedure'', opt_str (Testimonial.procedure t)),
      (ascii ''rating'', PInt (Testimonial.rating t)),
      (ascii ''text'', PStr (Testimonial.text t)),
      (ascii ''city'', opt_str (Testimonial.city t))]"
| "model_dump (ContactMessageM c) =
     [(ascii ''name'', PStr (ContactMessage.name c)),
      (ascii ''email'', opt_str (email c)),
      (ascii ''phone'', opt_str (phone c)),
      (ascii ''message'', PStr (message c))]"

definition collection :: "store \<Rightarrow> pystr \<Rightarrow> pydict list" where
  "collection s c = (case map_of (stored s) c of None \<Rightarrow> [] | Some ds \<Rightarrow> ds)"

fun append_to :: "pystr \<Rightarrow> pydict \<Rightarrow> (pystr \<times> pydict list) list \<Rightarrow> (pystr \<times> pydict list) list" where
  "append_to c d [] = [(c, [d])]"
| "append_to c d ((k, ds) # rest) =
     (if k = c then (k, ds @ [d]) # rest else (k, ds) # append_to c d rest)"

fun decimal :: "nat \<Rightarrow> pystr" where
  "decimal n = (if n < 10 then [48 + n] else decimal (n div 10) @ [48 + n mod 10])"

definition store_error :: pystr where
  "store_error = ascii ''store error''"

definition spec_database :: "(unit, store) database_module" where
  "spec_database =
     \<lparr>db = Some (),
      create_document = (\<lambda>c m s.
         if usable s
         then (Inr (decimal (next_id s)),
               s\<lparr>stored := append_to c (model_dump m) (stored s), next_id := Suc (next_id s)\<rparr>)
         else (Inl store_error, s)),
      get_documents = (\<lambda>c limit s.
         if usable s
         then (Inr (case limit of None \<Rightarrow> collection s c
                               | Some n \<Rightarrow> take (nat n) (collection s c)), s)
         else (Inl store_error, s)),
      list_collection_names = (\<lambda>h s.
         if usable s then (Inr (map fst (stored s)), s) else (Inl store_error, s))\<rparr>"

text \<open>The process without a store: \<open>db\<close> is \<open>None\<close>, and every call raises.\<close>

definition no_database :: "(unit, store) database_module" where
  "no_database =
     \<lparr>db = None,
      create_document = (\<lambda>c m s. (Inl store_error, s)),
      get_documents = (\<lambda>c limit s. (Inl store_error, s)),
      list_collection_names = (\<lambda>h s. (Inl store_error, s))\<rparr>"

section \<open>Example inputs\<close>

definition empty_store :: store where
  "empty_store = \<lparr>usable = True, stored = [], next_id = 0\<rparr>"

definition broken_store :: store where
  "broken_store = \<lparr>usable = False, stored = [], next_id = 0\<rparr>"

text \<open>
  A store with one well-formed surgery, and one with a second surgery that has a type
  and a description and no name.
\<close>

definition surgery_store :: store where
  "surgery_store =
     \<lparr>usable = True,
      stored = [(ascii ''surgery'',
                 [[(ascii ''name'', PStr (ascii ''Sleeve'')),
                   (ascii ''type'', PStr (ascii ''bariatric'')),
                   (ascii ''description'', PStr (ascii ''Smaller stomach''))]])],
      next_id = 1\<rparr>"

definition nameless_surgery_store :: store where
  "nameless_surgery_store =
     \<lparr>usable = True,
      stored = [(ascii ''surgery'',
                 [[(ascii ''name'', PStr (ascii ''Sleeve'')),
                   (ascii ''type'', PStr (ascii ''bariatric'')),
                   (ascii ''description'', PStr (ascii ''Smaller stomach''))],
                  [(ascii ''type'', PStr (ascii ''general'')),
                   (ascii ''description'', PStr (ascii ''Hernia repair''))]])],
      next_id = 2\<rparr>"

text \<open>The validation that converts nothing to a string.\<close>

definition no_coercion :: "pyval \<Rightarrow> pystr option" where
  "no_coercion v = None"

definition example_contact :: ContactMessage where
  "example_contact =
     \<lparr>ContactMessage.name = ascii ''Anna'', email = None, phone = None,
      message = ascii ''Hello''\<rparr>"

definition example_body :: Testimonial_body where
  "example_body =
     \<lparr>Testimonial_body.name = Some (ascii ''Anna''), procedure = None, rating = None,
      text = Some (ascii ''Thanks''), city = Some (ascii ''Kazan'')\<rparr>"

definition out_of_range_body :: Testimonial_body where
  "out_of_range_body = example_body\<lparr>rating := Some 6\<rparr>"

text \<open>A store holding two testimonials, the second without a rating.\<close>

definition testimonial_store :: store where
  "testimonial_store =
     \<lparr>usable = True,
      stored = [(ascii ''testimonial'',
                 [[(ascii ''name'', PStr (ascii ''Anna'')), (ascii ''rating'', PInt 4),
                   (ascii ''text'', PStr (ascii ''Thanks''))],
                  [(ascii ''name'', PStr (ascii ''Ivan'')),
                   (ascii ''text'', PStr (ascii ''Good''))]])],
      next_id = 2\<rparr>"

text \<open>A gateway whose handle exists and whose every call raises, with a long message.\<close>

definition long_message :: pystr where
  "long_message = replicate 60 120"

definition raising_database :: "(unit, store) database_module" where
  "raising_database =
     \<lparr>db = Some (),
      create_document = (\<lambda>c m s. (Inl long_message, s)),
      get_documents = (\<lambda>c limit s. (Inl long_message, s)),
      list_collection_names = (\<lambda>h s. (Inl long_message, s))\<rparr>"

definition no_environment :: "pystr \<Rightarrow> pystr option" where
  "no_environment k = None"


section \<open>Properties\<close>

subsection \<open>Evaluating the string literals\<close>

lemma ascii_eval:
  "ascii [] = []"
  "ascii (c # cs) = of_char c # ascii cs"
  by (simp_all add: ascii_def)

subsection \<open>Contact messages\<close>

lemma send_contact_absent:
  "db g = None \<Longrightarrow>
   send_contact g payload w =
     (Inr [(ascii ''ok'', PBool True), (ascii ''stored'', PBool False)], w)"
  by (simp add: send_contact_def)

lemma send_contact_stored:
  "db g = Some h \<Longrightarrow>
   create_document g (ascii ''contactmessage'') (ContactMessageM payload) w = (Inr i, w') \<Longrightarrow>
   send_contact g payload w =
     (Inr [(ascii ''ok'', PBool True), (ascii ''id'', PStr i), (ascii ''stored'', PBool True)], w')"
  by (simp add: send_contact_def)

lemma send_contact_failed:
  "db g = Some h \<Longrightarrow>
   create_document g (ascii ''contactmessage'') (ContactMessageM payload) w = (Inl e, w') \<Longrightarrow>
   send_contact g payload w = (Inl (HTTPException 500 e), w')"
  by (simp add: send_contact_def)

text \<open>
  C6. For every validated contact message: without a store the handler returns
  \<open>{ok: True, stored: False}\<close> (a result, so no 5xx status) and leaves the store's
  state alone; with a store whose insert returns an identifier it returns
  \<open>{ok: True, id, stored: True}\<close>; with a store whose insert raises it raises an
  \<open>HTTPException\<close> of status 500 whose detail is the message of the exception.
\<close>

theorem send_contact_cases:
  fixes g :: "('h, 'w) database_module"
  shows "(db g = None \<longrightarrow>
            send_contact g payload w =
              (Inr [(ascii ''ok'', PBool True), (ascii ''stored'', PBool False)], w))
       \<and> (\<forall>h i w'. db g = Some h \<and>
            create_document g (ascii ''contactmessage'') (ContactMessageM payload) w = (Inr i, w')
            \<longrightarrow> send_contact g payload w =
                  (Inr [(ascii ''ok'', PBool True), (ascii ''id'', PStr i),
                        (ascii ''stored'', PBool True)], w'))
       \<and> (\<forall>h e w'. db g = Some h \<and>
            create_document g (ascii ''contactmessage'') (ContactMessageM payload) w = (Inl e, w')
            \<longrightarrow> send_contact g payload w = (Inl (HTTPException 500 e), w')
                \<and> status_code (HTTPException 500 e) = 500)"
  using send_contact_absent [of g payload w] send_contact_stored [of g _ payload w]
    send_contact_failed [of g _ payload w]
  by auto

theorem send_contact_cases_witness:
  "db no_database = None
   \<and> send_contact no_database example_contact empty_store =
       (Inr [(ascii ''ok'', PBool True), (ascii ''stored'', PBool False)], empty_store)
   \<and> db spec_database = Some ()
   \<and> fst (create_document spec_database (ascii ''contactmessage'')
            (ContactMessageM example_contact) empty_store) = Inr (decimal 0)
   \<and> fst (send_contact spec_database example_contact empty_store) =
       Inr [(ascii ''ok'', PBool True), (ascii ''id'', PStr (decimal 0)),
            (ascii ''stored'', PBool True)]
   \<and> create_document spec_database (ascii ''contactmessage'')
        (ContactMessageM example_contact) broken_store = (Inl store_error, broken_store)
   \<and> send_contact spec_database example_contact broken_store =
       (Inl (HTTPException 500 store_error), broken_store)"
proof -
  have a: "db no_database = None"
    by (simp add: no_database_def)
  have b: "db spec_database = Some ()"
    by (simp add: spec_database_def)
  obtain s where c: "create_document spec_database (ascii ''contactmessage'')
      (ContactMessageM example_contact) empty_store = (Inr (decimal 0), s)"
    by (simp add: spec_database_def empty_store_def)
  have d: "create_document spec_database (ascii ''contactmessage'')
      (ContactMessageM example_contact) broken_store = (Inl store_error, broken_store)"
    by (simp add: spec_database_def broken_store_def)
  show ?thesis
    using a b c d
      send_contact_cases [of no_database example_contact empty_store]
      send_contact_cases [of spec_database example_contact empty_store]
      send_contact_cases [of spec_database example_contact broken_store]
    by (simp add: ascii_eval)
qed

subsection \<open>The list of surgeries\<close>

lemma list_surgeries_absent:
  "db g = None \<Longrightarrow> list_surgeries g w = (default_surgeries, w)"
  by (simp add: list_surgeries_def)

lemma list_surgeries_raised:
  "db g = Some h \<Longrightarrow> get_documents g (ascii ''surgery'') None w = (Inl e, w') \<Longrightarrow>
   list_surgeries g w = (default_surgeries, w')"
  by (simp add: list_surgeries_def)

lemma list_surgeries_fetched:
  "db g = Some h \<Longrightarrow> get_documents g (ascii ''surgery'') None w = (Inr items, w') \<Longrightarrow>
   list_surgeries g w =
     (if items = [] then default_surgeries else map surgery_projection items, w')"
  by (simp add: list_surgeries_def)

lemma those_eq_None_iff: "those xs = None \<longleftrightarrow> None \<in> set xs"
  by (induction xs) (auto split: option.splits)

lemma surgeries_route_error_iff:
  "fst (surgeries_route coerce g w) = Inl e \<longleftrightarrow>
     e = ResponseValidationError \<and>
     (\<exists>d \<in> set (fst (list_surgeries g w)). validate_Surgery coerce d = None)"
proof (cases "list_surgeries g w")
  case (Pair items w')
  show ?thesis
  proof (cases "those (map (validate_Surgery coerce) items)")
    case None
    then have "None \<in> set (map (validate_Surgery coerce) items)"
      by (simp only: those_eq_None_iff)
    then have "\<exists>d \<in> set items. validate_Surgery coerce d = None"
      by force
    with None Pair show ?thesis
      by (auto simp: surgeries_route_def)
  next
    case (Some xs)
    then have "None \<notin> set (map (validate_Surgery coerce) items)"
      using those_eq_None_iff [of "map (validate_Surgery coerce) items"] by simp
    then have "\<forall>d \<in> set items. validate_Surgery coerce d \<noteq> None"
      by force
    with Some Pair show ?thesis
      by (auto simp: surgeries_route_def)
  qed
qed

lemma default_surgeries_valid:
  "those (map (validate_Surgery coerce) default_surgeries) =
     Some [\<lparr>Surgery.name = default_name_1, type = ascii ''bariatric'',
             description = Some default_description_1\<rparr>,
           \<lparr>Surgery.name = default_name_2, type = ascii ''bariatric'',
             description = Some default_description_2\<rparr>,
           \<lparr>Surgery.name = default_name_3, type = ascii ''bariatric'',
             description = Some default_description_3\<rparr>,
           \<lparr>Surgery.name = default_name_4, type = ascii ''general'',
             description = Some default_description_4\<rparr>,
           \<lparr>Surgery.name = default_name_5, type = ascii ''general'',
             description = Some default_description_5\<rparr>,
           \<lparr>Surgery.name = default_name_6, type = ascii ''general'',
             description = Some default_description_6\<rparr>]"
  by (simp add: default_surgeries_def validate_Surgery_def str_field_def ascii_eval)

lemma surgery_projection_fields:
  "surgery_projection d =
     [(ascii ''name'', case map_of d (ascii ''name'') of None \<Rightarrow> PNone | Some v \<Rightarrow> v),
      (ascii ''type'', case map_of d (ascii ''type'') of None \<Rightarrow> PNone | Some v \<Rightarrow> v),
      (ascii ''description'',
         case map_of d (ascii ''description'') of None \<Rightarrow> PNone | Some v \<Rightarrow> v)]"
  by (simp add: surgery_projection_def dict_get_def)

lemma projection_lookup:
  "map_of (surgery_projection d) (ascii ''name'') = Some (dict_get d (ascii ''name''))"
  "map_of (surgery_projection d) (ascii ''type'') = Some (dict_get d (ascii ''type''))"
  "map_of (surgery_projection d) (ascii ''description'')
     = Some (dict_get d (ascii ''description''))"
  by (simp_all add: surgery_projection_def ascii_eval)

text \<open>A document with string name and type and a string, null or absent description fits.\<close>

lemma validate_projection_fits:
  assumes "map_of d (ascii ''name'') = Some (PStr n)"
    and "map_of d (ascii ''type'') = Some (PStr t)"
    and "map_of d (ascii ''description'') = None \<or>
         map_of d (ascii ''description'') = Some PNone \<or>
         (\<exists>s. map_of d (ascii ''description'') = Some (PStr s))"
  shows "validate_Surgery coerce (surgery_projection d) \<noteq> None"
  using assms
  by (auto simp: validate_Surgery_def projection_lookup dict_get_def str_field_def)

text \<open>A document whose name or type is null or absent does not.\<close>

lemma validate_projection_misfit:
  assumes "dict_get d (ascii ''name'') = PNone \<or> dict_get d (ascii ''type'') = PNone"
  shows "validate_Surgery coerce (surgery_projection d) = None"
  using assms
  by (auto simp: validate_Surgery_def projection_lookup str_field_def
      split: option.splits pyval.splits)

text \<open>
  What the handler \<open>list_surgeries\<close> does, for every gateway and state: it raises
  nothing; without a store, when the read raises and when it yields no documents it
  returns the fixed default list, otherwise the fetched documents, each projected to its
  name, type and description (\<open>None\<close> for a field the document lacks). The default
  list passes the route's response model as six records, three of type bariatric
  followed by three of type general. The route fails exactly when an item of the
  handler's result does not fit the response model: a projected document fits when its
  name and type are strings and its description is a string, null or absent, and does
  not fit when its name or type is null or absent.
\<close>

lemma list_surgeries_cases:
  fixes g :: "('h, 'w) database_module"
  shows "(db g = None \<longrightarrow> list_surgeries g w = (default_surgeries, w))
       \<and> (\<forall>h e w'. db g = Some h \<and> get_documents g (ascii ''surgery'') None w = (Inl e, w')
            \<longrightarrow> list_surgeries g w = (default_surgeries, w'))
       \<and> (\<forall>h items w'. db g = Some h \<and>
              get_documents g (ascii ''surgery'') None w = (Inr items, w')
            \<longrightarrow> list_surgeries g w =
                  (if items = [] then default_surgeries else map surgery_projection items, w'))
       \<and> (\<forall>d. surgery_projection d =
             [(ascii ''name'', case map_of d (ascii ''name'') of None \<Rightarrow> PNone | Some v \<Rightarrow> v),
              (ascii ''type'', case map_of d (ascii ''type'') of None \<Rightarrow> PNone | Some v \<Rightarrow> v),
              (ascii ''description'',
                 case map_of d (ascii ''description'') of None \<Rightarrow> PNone | Some v \<Rightarrow> v)])
       \<and> (fst (list_surgeries g w) = default_surgeries \<longrightarrow>
            fst (surgeries_route coerce g w) =
              Inr [\<lparr>Surgery.name = default_name_1, type = ascii ''bariatric'',
                     description = Some default_description_1\<rparr>,
                   \<lparr>Surgery.name = default_name_2, type = ascii ''bariatric'',
                     description = Some default_description_2\<rparr>,
                   \<lparr>Surgery.name = default_name_3, type = ascii ''bariatric'',
                     description = Some default_description_3\<rparr>,
                   \<lparr>Surgery.name = default_name_4, type = ascii ''general'',
                     description = Some default_description_4\<rparr>,
                   \<lparr>Surgery.name = default_name_5, type = ascii ''general'',
                     description = Some default_description_5\<rparr>,
                   \<lparr>Surgery.name = default_name_6, type = ascii ''general'',
                     description = Some default_description_6\<rparr>])
       \<and> (\<forall>e. fst (surgeries_route coerce g w) = Inl e \<longleftrightarrow>
              e = ResponseValidationError \<and>
              (\<exists>d \<in> set (fst (list_surgeries g w)). validate_Surgery coerce d = None))
       \<and> (\<forall>d. (\<exists>n. map_of d (ascii ''name'') = Some (PStr n)) \<and>
              (\<exists>t. map_of d (ascii ''type'') = Some (PStr t)) \<and>
              (map_of d (ascii ''description'') = None \<or>
               map_of d (ascii ''description'') = Some PNone \<or>
               (\<exists>s. map_of d (ascii ''description'') = Some (PStr s)))
            \<longrightarrow> validate_Surgery coerce (surgery_projection d) \<noteq> None)
       \<and> (\<forall>d. dict_get d (ascii ''name'') = PNone \<or> dict_get d (ascii ''type'') = PNone
            \<longrightarrow> validate_Surgery coerce (surgery_projection d) = None)"
proof -
  have "fst (surgeries_route coerce g w) = Inr xs"
    if "fst (list_surgeries g w) = default_surgeries"
      and "those (map (validate_Surgery coerce) default_surgeries) = Some xs" for xs
    using that by (cases "list_surgeries g w") (simp add: surgeries_route_def)
  then show ?thesis
    using list_surgeries_absent [of g w] list_surgeries_raised [of g _ w]
      list_surgeries_fetched [of g _ w] surgeries_route_error_iff [of coerce g w]
      validate_projection_fits [of _ _ _ coerce] validate_projection_misfit [of _ coerce]
      default_surgeries_valid [of coerce] surgery_projection_fields
    by blast
qed

lemma list_surgeries_examples:
  "list_surgeries no_database empty_store = (default_surgeries, empty_store)
   \<and> list_surgeries spec_database broken_store = (default_surgeries, broken_store)
   \<and> list_surgeries spec_database empty_store = (default_surgeries, empty_store)
   \<and> list_surgeries spec_database surgery_store =
       ([[(ascii ''name'', PStr (ascii ''Sleeve'')), (ascii ''type'', PStr (ascii ''bariatric'')),
          (ascii ''description'', PStr (ascii ''Smaller stomach''))]], surgery_store)
   \<and> fst (surgeries_route no_coercion spec_database surgery_store) =
       Inr [\<lparr>Surgery.name = ascii ''Sleeve'', type = ascii ''bariatric'',
             description = Some (ascii ''Smaller stomach'')\<rparr>]"
proof -
  have a: "db no_database = None"
    by (simp add: no_database_def)
  have b: "db spec_database = Some ()"
    by (simp add: spec_database_def)
  have c: "get_documents spec_database (ascii ''surgery'') None broken_store
             = (Inl store_error, broken_store)"
    by (simp add: spec_database_def broken_store_def)
  have d: "get_documents spec_database (ascii ''surgery'') None empty_store = (Inr [], empty_store)"
    by (simp add: spec_database_def empty_store_def collection_def ascii_eval)
  have e: "get_documents spec_database (ascii ''surgery'') None surgery_store
             = (Inr [[(ascii ''name'', PStr (ascii ''Sleeve'')),
                      (ascii ''type'', PStr (ascii ''bariatric'')),
                      (ascii ''description'', PStr (ascii ''Smaller stomach''))]], surgery_store)"
    by (simp add: spec_database_def surgery_store_def collection_def ascii_eval)
  have f: "fst (surgeries_route no_coercion spec_database surgery_store) =
       Inr [\<lparr>Surgery.name = ascii ''Sleeve'', type = ascii ''bariatric'',
             description = Some (ascii ''Smaller stomach'')\<rparr>]"
    using b e
    by (simp add: surgeries_route_def list_surgeries_def surgery_projection_def
        dict_get_def validate_Surgery_def str_field_def ascii_eval)
  show ?thesis
    using a b c d e f
      list_surgeries_cases [of no_database empty_store no_coercion]
      list_surgeries_cases [of spec_database broken_store no_coercion]
      list_surgeries_cases [of spec_database empty_store no_coercion]
      list_surgeries_cases [of spec_database surgery_store no_coercion]
    by (simp add: surgery_projection_def dict_get_def ascii_eval)
qed

text \<open>
  C3 at a store whose surgery collection holds two documents, the second with a type
  and a description and no name. The claim: no store state makes the operation surface
  an error, and fetched documents are returned projected. The code: the read succeeds
  and the handler returns the two projections, the second with \<open>None\<close> for the name,
  past its \<open>try/except\<close>; the route then validates what it returned against the
  response model \<open>Surgery\<close>, whose name is a required string, and the validation
  error leaves the route, a status 500 for the client.
\<close>

theorem surgeries_route_nameless_document:
  "db spec_database = Some ()
   \<and> get_documents spec_database (ascii ''surgery'') None nameless_surgery_store =
       (Inr [[(ascii ''name'', PStr (ascii ''Sleeve'')),
              (ascii ''type'', PStr (ascii ''bariatric'')),
              (ascii ''description'', PStr (ascii ''Smaller stomach''))],
             [(ascii ''type'', PStr (ascii ''general'')),
              (ascii ''description'', PStr (ascii ''Hernia repair''))]],
        nameless_surgery_store)
   \<and> list_surgeries spec_database nameless_surgery_store =
       ([[(ascii ''name'', PStr (ascii ''Sleeve'')),
          (ascii ''type'', PStr (ascii ''bariatric'')),
          (ascii ''description'', PStr (ascii ''Smaller stomach''))],
         [(ascii ''name'', PNone),
          (ascii ''type'', PStr (ascii ''general'')),
          (ascii ''description'', PStr (ascii ''Hernia repair''))]], nameless_surgery_store)
   \<and> fst (surgeries_route no_coercion spec_database nameless_surgery_store)
       = Inl ResponseValidationError
   \<and> status_code ResponseValidationError = 500"
  by (simp add: surgeries_route_def list_surgeries_def spec_database_def
      nameless_surgery_store_def collection_def surgery_projection_def dict_get_def
      validate_Surgery_def str_field_def no_coercion_def ascii_eval)

subsection \<open>Creating a testimonial\<close>

lemma traced_db [simp]: "db (traced g) = db g"
  by (simp add: traced_def)

lemma traced_create_document [simp]:
  "create_document (traced g) c m (w, tr) =
     (fst (create_document g c m w), snd (create_document g c m w), tr @ [Insert c])"
  by (simp add: traced_def split: prod.splits)

lemma traced_get_documents [simp]:
  "get_documents (traced g) c l (w, tr) =
     (fst (get_documents g c l w), snd (get_documents g c l w), tr @ [Fetch c])"
  by (simp add: traced_def split: prod.splits)

lemma traced_list_collection_names [simp]:
  "list_collection_names (traced g) h (w, tr) =
     (fst (list_collection_names g h w), snd (list_collection_names g h w),
      tr @ [ListCollections])"
  by (simp add: traced_def split: prod.splits)

lemma validate_out_of_range:
  "Testimonial_body.rating body = Some r \<Longrightarrow> r < 1 \<or> 5 < r \<Longrightarrow>
   validate_Testimonial body = Inl RequestValidationError"
  by (auto simp: validate_Testimonial_def split: option.splits)

lemma post_route_rejected:
  "validate_Testimonial body = Inl e \<Longrightarrow> testimonials_post_route g body w = (Inl e, w)"
  by (simp add: testimonials_post_route_def)

lemma post_route_absent:
  "validate_Testimonial body = Inr p \<Longrightarrow> db g = None \<Longrightarrow>
   testimonials_post_route g body w =
     (Inl (HTTPException 500 (ascii ''Database not available'')), w)"
  by (simp add: testimonials_post_route_def create_testimonial_def)

lemma post_route_inserted:
  "validate_Testimonial body = Inr p \<Longrightarrow> db g = Some h \<Longrightarrow>
   create_document g (ascii ''testimonial'') (TestimonialM p) w = (Inr i, w') \<Longrightarrow>
   testimonials_post_route g body w =
     (Inr [(ascii ''id'', PStr i), (ascii ''ok'', PBool True)], w')"
  by (simp add: testimonials_post_route_def create_testimonial_def)

lemma post_route_failed:
  "validate_Testimonial body = Inr p \<Longrightarrow> db g = Some h \<Longrightarrow>
   create_document g (ascii ''testimonial'') (TestimonialM p) w = (Inl e, w') \<Longrightarrow>
   testimonials_post_route g body w = (Inl (HTTPException 500 e), w')"
  by (simp add: testimonials_post_route_def create_testimonial_def)

text \<open>
  C4, as the code has it. A body whose rating is outside 1..5 is rejected with the
  request validation error (status 422) whatever the store is: the store's state is
  returned unchanged and the traced gateway logs no access. A valid body without a store
  is rejected with status 500, "Database not available". A valid body with a store is
  inserted into it: when the insert returns an identifier the result is
  \<open>{id, ok: True}\<close>, and when the insert raises the result is an \<open>HTTPException\<close> of
  status 500 whose detail is the message of the exception.
\<close>

theorem create_testimonial_cases:
  fixes g :: "('h, 'w) database_module"
  shows "(\<forall>r. Testimonial_body.rating body = Some r \<and> (r < 1 \<or> 5 < r) \<longrightarrow>
            testimonials_post_route g body w = (Inl RequestValidationError, w)
            \<and> status_code RequestValidationError = 422
            \<and> snd (snd (testimonials_post_route (traced g) body (w, []))) = [])
       \<and> (\<forall>p. validate_Testimonial body = Inr p \<and> db g = None \<longrightarrow>
            testimonials_post_route g body w =
              (Inl (HTTPException 500 (ascii ''Database not available'')), w))
       \<and> (\<forall>p h i w'. validate_Testimonial body = Inr p \<and> db g = Some h \<and>
              create_document g (ascii ''testimonial'') (TestimonialM p) w = (Inr i, w') \<longrightarrow>
            testimonials_post_route g body w =
              (Inr [(ascii ''id'', PStr i), (ascii ''ok'', PBool True)], w'))
       \<and> (\<forall>p h e w'. validate_Testimonial body = Inr p \<and> db g = Some h \<and>
              create_document g (ascii ''testimonial'') (TestimonialM p) w = (Inl e, w') \<longrightarrow>
            testimonials_post_route g body w = (Inl (HTTPException 500 e), w'))"
proof -
  have "snd (snd (testimonials_post_route (traced g) body (w, []))) = []"
    if "validate_Testimonial body = Inl RequestValidationError"
    using post_route_rejected [OF that, of "traced g" "(w, [])"] by simp
  then show ?thesis
    using validate_out_of_range [of body] post_route_rejected [of body _ g w]
      post_route_absent [of body _ g w] post_route_inserted [of body _ g _ w]
      post_route_failed [of body _ g _ w]
    by (simp (no_asm_simp))
qed

lemma validate_example_body:
  "validate_Testimonial example_body =
     Inr \<lparr>Testimonial.name = ascii ''Anna'', procedure = None, rating = 5,
          text = ascii ''Thanks'', city = Some (ascii ''Kazan'')\<rparr>"
  by (simp add: validate_Testimonial_def example_body_def)

theorem create_testimonial_cases_witness:
  "Testimonial_body.rating out_of_range_body = Some 6
   \<and> testimonials_post_route spec_database out_of_range_body empty_store
       = (Inl RequestValidationError, empty_store)
   \<and> testimonials_post_route no_database out_of_range_body empty_store
       = (Inl RequestValidationError, empty_store)
   \<and> testimonials_post_route no_database example_body empty_store
       = (Inl (HTTPException 500 (ascii ''Database not available'')), empty_store)
   \<and> fst (testimonials_post_route spec_database example_body empty_store)
       = Inr [(ascii ''id'', PStr (decimal 0)), (ascii ''ok'', PBool True)]
   \<and> testimonials_post_route spec_database example_body broken_store
       = (Inl (HTTPException 500 store_error), broken_store)"
proof -
  let ?p = "\<lparr>Testimonial.name = ascii ''Anna'', procedure = None, rating = 5,
          text = ascii ''Thanks'', city = Some (ascii ''Kazan'')\<rparr>"
  have a: "Testimonial_body.rating out_of_range_body = Some 6"
    by (simp add: out_of_range_body_def)
  have b: "db no_database = None" "db spec_database = Some ()"
    by (simp_all add: no_database_def spec_database_def)
  obtain s where c: "create_document spec_database (ascii ''testimonial'') (TestimonialM ?p)
      empty_store = (Inr (decimal 0), s)"
    by (simp add: spec_database_def empty_store_def)
  have d: "create_document spec_database (ascii ''testimonial'') (TestimonialM ?p)
      broken_store = (Inl store_error, broken_store)"
    by (simp add: spec_database_def broken_store_def)
  show ?thesis
    using a b c d validate_example_body
      create_testimonial_cases [of out_of_range_body spec_database empty_store]
      create_testimonial_cases [of out_of_range_body no_database empty_store]
      create_testimonial_cases [of example_body no_database empty_store]
      create_testimonial_cases [of example_body spec_database empty_store]
      create_testimonial_cases [of example_body spec_database broken_store]
    by (simp add: ascii_eval)
qed

text \<open>
  The claim as stated (a valid body and a present store always give \<open>{id, ok: True}\<close>)
  fails when the insert raises: the body is valid and the store is there, and the result
  is the 500 error carrying the store's message.
\<close>

theorem create_testimonial_insert_raises:
  "validate_Testimonial example_body =
     Inr \<lparr>Testimonial.name = ascii ''Anna'', procedure = None, rating = 5,
          text = ascii ''Thanks'', city = Some (ascii ''Kazan'')\<rparr>
   \<and> db spec_database = Some ()
   \<and> testimonials_post_route spec_database example_body broken_store
       = (Inl (HTTPException 500 store_error), broken_store)"
  by (simp add: validate_Testimonial_def example_body_def spec_database_def
      testimonials_post_route_def create_testimonial_def broken_store_def)

subsection \<open>Listing testimonials and before/after cases\<close>














subsection \<open>The diagnostic probe\<close>

lemma test_database_absent:
  "db g = None \<Longrightarrow>
   test_database g getenv w =
     (\<lparr>backend = [9989, 32] @ ascii ''Running'',
       database = [9888, 65039, 32, 32] @ ascii ''Available but not initialized'',
       database_url = None, database_name = None,
       connection_status = ascii ''Not Connected'', collections = []\<rparr>, w)"
  by (simp add: test_database_def)

lemma test_database_working:
  "db g = Some h \<Longrightarrow> list_collection_names g h w = (Inr names, w') \<Longrightarrow>
   test_database g getenv w =
     (\<lparr>backend = [9989, 32] @ ascii ''Running'',
       database = [9989, 32] @ ascii ''Connected & Working'',
       database_url = Some (if truthy (getenv (ascii ''DATABASE_URL''))
                            then [9989, 32] @ ascii ''Set''
                            else [10060, 32] @ ascii ''Not Set''),
       database_name = Some (py_or (getenv (ascii ''DATABASE_NAME''))
                               ([10060, 32] @ ascii ''Not Set'')),
       connection_status = ascii ''Connected'', collections = take 10 names\<rparr>, w')"
  by (simp add: test_database_def)

lemma test_database_degraded:
  "db g = Some h \<Longrightarrow> list_collection_names g h w = (Inl e, w') \<Longrightarrow>
   test_database g getenv w =
     (\<lparr>backend = [9989, 32] @ ascii ''Running'',
       database = [9888, 65039, 32, 32] @ ascii ''Connected but Error: '' @ take 50 e,
       database_url = Some (if truthy (getenv (ascii ''DATABASE_URL''))
                            then [9989, 32] @ ascii ''Set''
                            else [10060, 32] @ ascii ''Not Set''),
       database_name = Some (py_or (getenv (ascii ''DATABASE_NAME''))
                               ([10060, 32] @ ascii ''Not Set'')),
       connection_status = ascii ''Connected'', collections = []\<rparr>, w')"
  by (simp add: test_database_def)

lemma test_database_bounds:
  "backend (fst (test_database g getenv w)) = [9989, 32] @ ascii ''Running''
   \<and> length (collections (fst (test_database g getenv w))) \<le> 10
   \<and> length (database (fst (test_database g getenv w))) \<le> 75"
proof (cases "db g")
  case None
  then show ?thesis
    by (simp add: test_database_absent ascii_eval)
next
  case (Some h)
  show ?thesis
  proof (cases "list_collection_names g h w")
    case (Pair r w')
    with Some show ?thesis
      by (cases r) (simp_all add: test_database_working test_database_degraded ascii_eval)
  qed
qed

text \<open>
  C7. The probe is a total function into the status object, so it never raises:
  for every gateway, environment and store state it returns a status whose backend
  field is the running mark, whose collection list has at most 10 names and whose
  database string has at most 75 characters. Without a handle the database string is
  "Available but not initialized"; with a handle whose listing works it is "Connected &
  Working" with the first 10 names; with a handle whose listing raises it is "Connected
  but Error: " followed by the first 50 characters of the message.
\<close>

theorem test_database_never_raises:
  fixes g :: "('h, 'w) database_module"
  shows "backend (fst (test_database g getenv w)) = [9989, 32] @ ascii ''Running''
       \<and> length (collections (fst (test_database g getenv w))) \<le> 10
       \<and> length (database (fst (test_database g getenv w))) \<le> 75
       \<and> (db g = None \<longrightarrow>
            test_database g getenv w =
              (\<lparr>backend = [9989, 32] @ ascii ''Running'',
                database = [9888, 65039, 32, 32] @ ascii ''Available but not initialized'',
                database_url = None, database_name = None,
                connection_status = ascii ''Not Connected'', collections = []\<rparr>, w))
       \<and> (\<forall>h names w'. db g = Some h \<and> list_collection_names g h w = (Inr names, w') \<longrightarrow>
            database (fst (test_database g getenv w)) = [9989, 32] @ ascii ''Connected & Working''
            \<and> collections (fst (test_database g getenv w)) = take 10 names
            \<and> connection_status (fst (test_database g getenv w)) = ascii ''Connected'')
       \<and> (\<forall>h e w'. db g = Some h \<and> list_collection_names g h w = (Inl e, w') \<longrightarrow>
            database (fst (test_database g getenv w)) =
              [9888, 65039, 32, 32] @ ascii ''Connected but Error: '' @ take 50 e
            \<and> collections (fst (test_database g getenv w)) = []
            \<and> connection_status (fst (test_database g getenv w)) = ascii ''Connected'')"
proof -
  have "database (fst (test_database g getenv w)) = [9989, 32] @ ascii ''Connected & Working''
      \<and> collections (fst (test_database g getenv w)) = take 10 names
      \<and> connection_status (fst (test_database g getenv w)) = ascii ''Connected''"
    if "db g = Some h" "list_collection_names g h w = (Inr names, w')" for h names w'
    using test_database_working [OF that, of getenv] by simp
  moreover have "database (fst (test_database g getenv w)) =
              [9888, 65039, 32, 32] @ ascii ''Connected but Error: '' @ take 50 e
      \<and> collections (fst (test_database g getenv w)) = []
      \<and> connection_status (fst (test_database g getenv w)) = ascii ''Connected''"
    if "db g = Some h" "list_collection_names g h w = (Inl e, w')" for h e w'
    using test_database_degraded [OF that, of getenv] by simp
  ultimately show ?thesis
    using test_database_bounds [of g getenv w] test_database_absent [of g getenv w]
    by blast
qed

theorem test_database_never_raises_witness:
  "db no_database = None
   \<and> database (fst (test_database no_database no_environment empty_store)) =
       [9888, 65039, 32, 32] @ ascii ''Available but not initialized''
   \<and> db spec_database = Some ()
   \<and> list_collection_names spec_database () testimonial_store
       = (Inr [ascii ''testimonial''], testimonial_store)
   \<and> database (fst (test_database spec_database no_environment testimonial_store)) =
       [9989, 32] @ ascii ''Connected & Working''
   \<and> collections (fst (test_database spec_database no_environment testimonial_store)) =
       [ascii ''testimonial'']
   \<and> db raising_database = Some ()
   \<and> list_collection_names raising_database () empty_store = (Inl long_message, empty_store)
   \<and> database (fst (test_database raising_database no_environment empty_store)) =
       [9888, 65039, 32, 32] @ ascii ''Connected but Error: '' @ replicate 50 120
   \<and> length long_message = 60"
proof -
  have a: "db no_database = None" "db spec_database = Some ()" "db raising_database = Some ()"
    by (simp_all add: no_database_def spec_database_def raising_database_def)
  have b: "list_collection_names spec_database () testimonial_store
       = (Inr [ascii ''testimonial''], testimonial_store)"
    by (simp add: spec_database_def testimonial_store_def)
  have c: "list_collection_names raising_database () empty_store = (Inl long_message, empty_store)"
    by (simp add: raising_database_def)
  have d: "take 50 long_message = replicate 50 120" "length long_message = 60"
    by (simp_all add: long_message_def)
  show ?thesis
    using a b c d
      test_database_never_raises [of no_database no_environment empty_store]
      test_database_never_raises [of spec_database no_environment testimonial_store]
      test_database_never_raises [of raising_database no_environment empty_store]
    by simp
qed

subsection \<open>The collections the handlers access\<close>

lemma collection_names:
  "str_lower Testimonial_class = ascii ''testimonial''"
  "str_lower ContactMessage_class = ascii ''contactmessage''"
  "str_lower BeforeAfter_class = ascii ''beforeafter''"
  "str_lower Surgery_class = ascii ''surgery''"
  by (simp_all add: str_lower_def Testimonial_class_def ContactMessage_class_def
      BeforeAfter_class_def Surgery_class_def ascii_eval)

lemma create_testimonial_accesses:
  "snd (snd (create_testimonial (traced g) p (w, []))) =
     (case db g of None \<Rightarrow> [] | Some h \<Rightarrow> [Insert (ascii ''testimonial'')])"
  by (simp add: create_testimonial_def split: option.splits sum.splits prod.splits)

lemma send_contact_accesses:
  "snd (snd (send_contact (traced g) c (w, []))) =
     (case db g of None \<Rightarrow> [] | Some h \<Rightarrow> [Insert (ascii ''contactmessage'')])"
  by (simp add: send_contact_def split: option.splits sum.splits prod.splits)

lemma get_testimonials_accesses:
  "snd (snd (get_testimonials (traced g) limit (w, []))) =
     (case db g of None \<Rightarrow> [] | Some h \<Rightarrow> [Fetch (ascii ''testimonial'')])"
  by (simp add: get_testimonials_def Let_def split: option.splits sum.splits prod.splits)

lemma get_before_after_accesses:
  "snd (snd (get_before_after (traced g) limit (w, []))) =
     (case db g of None \<Rightarrow> [] | Some h \<Rightarrow> [Fetch (ascii ''beforeafter'')])"
  by (simp add: get_before_after_def Let_def split: option.splits sum.splits prod.splits)

lemma list_surgeries_accesses:
  "snd (snd (list_surgeries (traced g) (w, []))) =
     (case db g of None \<Rightarrow> [] | Some h \<Rightarrow> [Fetch (ascii ''surgery'')])"
  by (simp add: list_surgeries_def split: option.splits sum.splits prod.splits)

text \<open>
  C9. Run against the traced gateway from an empty log, each handler leaves a log that
  names one collection only, the lowercased class name of its entity: creating a
  testimonial inserts into "testimonial", a contact message into "contactmessage",
  listing testimonials fetches from "testimonial", before/after cases from
  "beforeafter" (and surgeries from "surgery"); without a store the log stays empty.
\<close>

theorem handlers_access_their_collection:
  fixes g :: "('h, 'w) database_module"
  shows "snd (snd (create_testimonial (traced g) p (w, []))) =
           (case db g of None \<Rightarrow> [] | Some h \<Rightarrow> [Insert (str_lower Testimonial_class)])
       \<and> snd (snd (send_contact (traced g) c (w, []))) =
           (case db g of None \<Rightarrow> [] | Some h \<Rightarrow> [Insert (str_lower ContactMessage_class)])
       \<and> snd (snd (get_testimonials (traced g) limit (w, []))) =
           (case db g of None \<Rightarrow> [] | Some h \<Rightarrow> [Fetch (str_lower Testimonial_class)])
       \<and> snd (snd (get_before_after (traced g) limit (w, []))) =
           (case db g of None \<Rightarrow> [] | Some h \<Rightarrow> [Fetch (str_lower BeforeAfter_class)])
       \<and> snd (snd (list_surgeries (traced g) (w, []))) =
           (case db g of None \<Rightarrow> [] | Some h \<Rightarrow> [Fetch (str_lower Surgery_class)])
       \<and> str_lower Testimonial_class = ascii ''testimonial''
       \<and> str_lower ContactMessage_class = ascii ''contactmessage''
       \<and> str_lower BeforeAfter_class = ascii ''beforeafter''"
  by (simp only: collection_names create_testimonial_accesses send_contact_accesses
      get_testimonials_accesses get_before_after_accesses list_surgeries_accesses simp_thms)

theorem handlers_access_their_collection_witness:
  "snd (snd (create_testimonial (traced spec_database)
       \<lparr>Testimonial.name = ascii ''Anna'', procedure = None, rating = 5,
        text = ascii ''Thanks'', city = None\<rparr> (empty_store, []))) = [Insert (ascii ''testimonial'')]
   \<and> snd (snd (send_contact (traced spec_database) example_contact (empty_store, [])))
       = [Insert (ascii ''contactmessage'')]
   \<and> snd (snd (get_before_after (traced spec_database) None (empty_store, [])))
       = [Fetch (ascii ''beforeafter'')]
   \<and> snd (snd (get_before_after (traced no_database) None (empty_store, []))) = []"
proof -
  have a: "db no_database = None" "db spec_database = Some ()"
    by (simp_all add: no_database_def spec_database_def)
  show ?thesis
    using a
      handlers_access_their_collection [of spec_database _ empty_store example_contact None]
      handlers_access_their_collection [of no_database _ empty_store example_contact None]
    by simp
qed

subsection \<open>Round trip of a testimonial through the store\<close>

lemma map_of_append_to:
  "map_of (append_to c d xs) c =
     Some ((case map_of xs c of None \<Rightarrow> [] | Some ds \<Rightarrow> ds) @ [d])"
  by (induction xs) auto

lemma collection_after_insert:
  "collection (s\<lparr>stored := append_to c d (stored s), next_id := n\<rparr>) c = collection s c @ [d]"
  by (simp add: collection_def map_of_append_to)

lemma projection_of_dump:
  "testimonial_projection (model_dump (TestimonialM p)) =
     [(ascii ''name'', PStr (Testimonial.name p)),
      (ascii ''procedure'', opt_str (Testimonial.procedure p)),
      (ascii ''rating'', PInt (Testimonial.rating p)),
      (ascii ''text'', PStr (Testimonial.text p)),
      (ascii ''city'', opt_str (Testimonial.city p))]"
  by (simp add: testimonial_projection_def dict_get_def dict_get_default_def ascii_eval)

lemma validated_fields:
  "validate_Testimonial body = Inr p \<Longrightarrow>
     Testimonial_body.name body = Some (Testimonial.name p)
   \<and> Testimonial_body.text body = Some (Testimonial.text p)
   \<and> Testimonial.procedure p = Testimonial_body.procedure body
   \<and> Testimonial.city p = Testimonial_body.city body
   \<and> Testimonial.rating p = (case Testimonial_body.rating body of None \<Rightarrow> 5 | Some r \<Rightarrow> r)"
  by (auto simp: validate_Testimonial_def Let_def split: option.splits if_splits)

lemma spec_create_testimonial:
  "usable s \<Longrightarrow>
   create_testimonial spec_database p s =
     (Inr [(ascii ''id'', PStr (decimal (next_id s))), (ascii ''ok'', PBool True)],
      s\<lparr>stored := append_to (ascii ''testimonial'') (model_dump (TestimonialM p)) (stored s),
        next_id := Suc (next_id s)\<rparr>)"
  by (simp add: create_testimonial_def spec_database_def)

lemma spec_get_testimonials:
  "usable s \<Longrightarrow>
   get_testimonials spec_database (Some n) s =
     (Inr (map testimonial_projection (take (nat n) (collection s (ascii ''testimonial'')))), s)"
  by (simp add: get_testimonials_def spec_database_def)

text \<open>
  C8. On the store of the spec, when it is usable: a valid body is created with
  \<open>{id, ok: True}\<close>, and in the state after it a list call with limit \<open>n\<close> returns the
  projections of the first \<open>n\<close> testimonials in insertion order; the new one comes after
  those already stored, so it is in the result when \<open>n\<close> exceeds their number, with the
  name, procedure, text and city of the body and its rating, 5 when the body had none.
\<close>

theorem testimonial_round_trip:
  assumes "usable s" and "validate_Testimonial body = Inr p"
  shows "\<exists>i s'.
      testimonials_post_route spec_database body s =
        (Inr [(ascii ''id'', PStr i), (ascii ''ok'', PBool True)], s')
    \<and> (\<forall>n. \<exists>items.
          get_testimonials spec_database (Some n) s' = (Inr items, s')
        \<and> items = take (nat n)
            (map testimonial_projection (collection s (ascii ''testimonial'')) @
             [[(ascii ''name'', PStr (the (Testimonial_body.name body))),
               (ascii ''procedure'', opt_str (Testimonial_body.procedure body)),
               (ascii ''rating'',
                  PInt (case Testimonial_body.rating body of None \<Rightarrow> 5 | Some r \<Rightarrow> r)),
               (ascii ''text'', PStr (the (Testimonial_body.text body))),
               (ascii ''city'', opt_str (Testimonial_body.city body))]])
        \<and> (length (collection s (ascii ''testimonial'')) < nat n \<longrightarrow>
             [(ascii ''name'', PStr (the (Testimonial_body.name body))),
              (ascii ''procedure'', opt_str (Testimonial_body.procedure body)),
              (ascii ''rating'',
                 PInt (case Testimonial_body.rating body of None \<Rightarrow> 5 | Some r \<Rightarrow> r)),
              (ascii ''text'', PStr (the (Testimonial_body.text body))),
              (ascii ''city'', opt_str (Testimonial_body.city body))] \<in> set items))"
proof -
  let ?c = "ascii ''testimonial''"
  let ?s' = "s\<lparr>stored := append_to ?c (model_dump (TestimonialM p)) (stored s),
               next_id := Suc (next_id s)\<rparr>"
  let ?d = "[(ascii ''name'', PStr (the (Testimonial_body.name body))),
             (ascii ''procedure'', opt_str (Testimonial_body.procedure body)),
             (ascii ''rating'',
                PInt (case Testimonial_body.rating body of None \<Rightarrow> 5 | Some r \<Rightarrow> r)),
             (ascii ''text'', PStr (the (Testimonial_body.text body))),
             (ascii ''city'', opt_str (Testimonial_body.city body))]"
  have post: "testimonials_post_route spec_database body s =
      (Inr [(ascii ''id'', PStr (decimal (next_id s))), (ascii ''ok'', PBool True)], ?s')"
    using assms by (simp add: testimonials_post_route_def spec_create_testimonial)
  have dump: "testimonial_projection (model_dump (TestimonialM p)) = ?d"
    unfolding projection_of_dump using validated_fields [OF assms(2)] by simp
  have usable': "usable ?s'"
    using assms(1) by simp
  have coll: "collection ?s' ?c = collection s ?c @ [model_dump (TestimonialM p)]"
    by (rule collection_after_insert)
  have get: "get_testimonials spec_database (Some n) ?s' =
      (Inr (take (nat n) (map testimonial_projection (collection s ?c) @ [?d])), ?s')" for n
  proof -
    have "map testimonial_projection (take (nat n) (collection s ?c @ [model_dump (TestimonialM p)]))
        = take (nat n) (map testimonial_projection (collection s ?c) @ [?d])"
      by (simp only: take_map [symmetric] map_append list.map dump)
    then show ?thesis
      using spec_get_testimonials [OF usable', of n] by (simp only: coll)
  qed
  have mem: "?d \<in> set (take (nat n) (map testimonial_projection (collection s ?c) @ [?d]))"
    if "length (collection s ?c) < nat n" for n
  proof -
    have "take (nat n) (map testimonial_projection (collection s ?c) @ [?d]) =
        map testimonial_projection (collection s ?c) @ [?d]"
      using that by simp
    then show ?thesis
      by simp
  qed
  show ?thesis
    using post get mem by blast
qed

theorem testimonial_round_trip_witness:
  "usable testimonial_store
   \<and> validate_Testimonial example_body =
       Inr \<lparr>Testimonial.name = ascii ''Anna'', procedure = None, rating = 5,
            text = ascii ''Thanks'', city = Some (ascii ''Kazan'')\<rparr>
   \<and> (\<exists>i s'. testimonials_post_route spec_database example_body testimonial_store =
          (Inr [(ascii ''id'', PStr i), (ascii ''ok'', PBool True)], s')
        \<and> (\<exists>items. get_testimonials spec_database (Some 3) s' = (Inr items, s')
             \<and> [(ascii ''name'', PStr (ascii ''Anna'')), (ascii ''procedure'', PNone),
                 (ascii ''rating'', PInt 5), (ascii ''text'', PStr (ascii ''Thanks'')),
                 (ascii ''city'', PStr (ascii ''Kazan''))] \<in> set items))"
proof -
  have a: "usable testimonial_store"
    by (simp add: testimonial_store_def)
  have b: "length (collection testimonial_store (ascii ''testimonial'')) < nat 3"
    by (simp add: testimonial_store_def collection_def ascii_eval)
  have c: "the (Testimonial_body.name example_body) = ascii ''Anna''"
      "the (Testimonial_body.text example_body) = ascii ''Thanks''"
      "opt_str (Testimonial_body.procedure example_body) = PNone"
      "opt_str (Testimonial_body.city example_body) = PStr (ascii ''Kazan'')"
      "(case Testimonial_body.rating example_body of None \<Rightarrow> 5 | Some r \<Rightarrow> r) = 5"
    by (simp_all add: example_body_def opt_str_def)
  from testimonial_round_trip [OF a validate_example_body]
  obtain i s' where post: "testimonials_post_route spec_database example_body testimonial_store =
        (Inr [(ascii ''id'', PStr i), (ascii ''ok'', PBool True)], s')"
    and get: "\<And>n. \<exists>items.
          get_testimonials spec_database (Some n) s' = (Inr items, s')
        \<and> (length (collection testimonial_store (ascii ''testimonial'')) < nat n \<longrightarrow>
             [(ascii ''name'', PStr (ascii ''Anna'')), (ascii ''procedure'', PNone),
              (ascii ''rating'', PInt 5), (ascii ''text'', PStr (ascii ''Thanks'')),
              (ascii ''city'', PStr (ascii ''Kazan''))] \<in> set items)"
    unfolding c by blast
  from get [of 3] b post a validate_example_body show ?thesis
    by blast
qed

subsection \<open>Rounding to binary64\<close>

lemma round_half_even_bounds:
  "x - 1 / 2 \<le> of_int (round_half_even x) \<and> of_int (round_half_even x) \<le> x + 1 / 2"
  unfolding round_half_even_def Let_def
  by (auto; linarith)

lemma round_half_even_zero:
  "0 \<le> x \<Longrightarrow> x \<le> 1 / 2 \<Longrightarrow> round_half_even x = 0"
proof -
  assume a: "0 \<le> x" "x \<le> 1 / 2"
  then have "\<lfloor>x\<rfloor> = 0" by linarith
  with a show ?thesis
    by (simp add: round_half_even_def Let_def)
qed

lemma round_half_even_pos:
  "1 / 2 < x \<Longrightarrow> 1 \<le> round_half_even x"
  using round_half_even_bounds [of x] by linarith

lemma round_half_even_nonneg:
  "0 \<le> x \<Longrightarrow> 0 \<le> round_half_even x"
  using round_half_even_bounds [of x] by linarith

lemma round_half_even_of_int: "round_half_even (of_int n) = n"
  by (simp add: round_half_even_def)

lemma floor_log2_bounds:
  assumes "0 < a"
  shows "2 powi (floor_log2 a) \<le> a \<and> a < 2 powi (floor_log2 a + 1)"
proof -
  obtain p q where pq: "quotient_of a = (p, q)"
    by (cases "quotient_of a")
  then have q: "0 < q" and a: "a = of_int p / of_int q"
    using quotient_of_denom_pos quotient_of_div by blast+
  with assms have p: "0 < p"
    by (simp add: zero_less_divide_iff)
  let ?d = "bitlen p - bitlen q"
  have bp: "1 \<le> bitlen p" and bq: "1 \<le> bitlen q"
    using p q bitlen_eq_zero_iff [of p] bitlen_eq_zero_iff [of q] bitlen_nonneg [of p]
      bitlen_nonneg [of q] by linarith+
  have pw: "(2::rat) powi k = of_int (2 ^ nat k)" if "0 \<le> k" for k
    using that by (simp add: power_int_def)
  have p_lo: "(2::rat) powi (bitlen p - 1) \<le> of_int p"
    using bitlen_bounds [OF p] bp by (simp only: pw of_int_le_iff)
  have p_hi: "of_int p < (2::rat) powi (bitlen p)"
    using bitlen_bounds [OF p] bp by (simp only: pw of_int_less_iff)
  have q_lo: "(2::rat) powi (bitlen q - 1) \<le> of_int q"
    using bitlen_bounds [OF q] bq by (simp only: pw of_int_le_iff)
  have q_hi: "of_int q < (2::rat) powi (bitlen q)"
    using bitlen_bounds [OF q] bq by (simp only: pw of_int_less_iff)
  have pos: "0 < (2::rat) powi k" for k
    by simp
  have "a < 2 powi bitlen p / 2 powi (bitlen q - 1)"
    unfolding a using p_hi q_lo p q pos [of "bitlen q - 1"]
    by (intro frac_less) auto
  also have "\<dots> = 2 powi (?d + 1)"
    by (simp add: power_int_diff [symmetric] algebra_simps)
  finally have hi: "a < 2 powi (?d + 1)" .
  have "2 powi (bitlen p - 1) / 2 powi (bitlen q) < a"
    unfolding a using p_lo q_hi p q pos [of "bitlen p - 1"]
    by (intro frac_less2) auto
  moreover have "2 powi (bitlen p - 1) / 2 powi (bitlen q) = (2::rat) powi (?d - 1)"
    by (simp add: power_int_diff [symmetric] algebra_simps)
  ultimately have lo: "2 powi (?d - 1) < a"
    by simp
  show ?thesis
    using hi lo pq by (auto simp: floor_log2_def Let_def)
qed

lemma ulp_pos: "0 < ulp a"
  by (simp add: ulp_def)

lemma fl_of_pos:
  "0 < x \<Longrightarrow>
   fl x = (if 2 powi 1024 \<le> of_int (round_half_even (x / ulp x)) * ulp x then PosInf
           else Finite (of_int (round_half_even (x / ulp x)) * ulp x))"
  by (simp add: fl_def ulp_def Let_def)

lemma fl_of_neg:
  "x < 0 \<Longrightarrow>
   fl x = (if 2 powi 1024 \<le> of_int (round_half_even (- x / ulp (- x))) * ulp (- x) then NegInf
           else Finite (- (of_int (round_half_even (- x / ulp (- x))) * ulp (- x))))"
  by (simp add: fl_def ulp_def Let_def)

lemma pow2_pos: "0 < (2::rat) powi k"
  by simp

lemma pow2_mono: "m \<le> n \<Longrightarrow> (2::rat) powi m \<le> 2 powi n"
  by (rule power_int_increasing) simp_all

lemma pow2_strict_mono: "m < n \<Longrightarrow> (2::rat) powi m < 2 powi n"
  by (rule power_int_strict_increasing) simp_all

lemma pow2_less_imp: "(2::rat) powi m < 2 powi n \<Longrightarrow> m < n"
  using pow2_mono [of n m] by (cases "m < n") simp_all

lemma pow2_Suc: "(2::rat) powi (k + 1) = 2 * 2 powi k"
  by (simp add: power_int_add)

lemma ulp_le:
  assumes "2 powi (- 1074) \<le> a"
  shows "ulp a \<le> a"
proof (cases "- 1022 \<le> floor_log2 a")
  case True
  have "0 < a"
    using pow2_pos [of "- 1074"] assms by (rule less_le_trans)
  then have "2 powi floor_log2 a \<le> a"
    using floor_log2_bounds by blast
  moreover have "(2::rat) powi (floor_log2 a - 52) \<le> 2 powi floor_log2 a"
    by (rule pow2_mono) simp
  moreover have "max (floor_log2 a) (- 1022) = floor_log2 a"
    using True by simp
  ultimately show ?thesis
    by (simp only: ulp_def)
next
  case False
  then have "max (floor_log2 a) (- 1022) - 52 = - 1074"
    by simp
  then show ?thesis
    using assms by (simp only: ulp_def)
qed

lemma ulp_tiny:
  assumes "0 < a" and "a < 2 powi (- 1022)"
  shows "ulp a = 2 powi (- 1074)"
proof -
  have "2 powi floor_log2 a \<le> a"
    using floor_log2_bounds [OF assms(1)] by blast
  then have "(2::rat) powi floor_log2 a < 2 powi (- 1022)"
    using assms(2) by (rule le_less_trans)
  then have "floor_log2 a < - 1022"
    by (rule pow2_less_imp)
  then have "max (floor_log2 a) (- 1022) - 52 = - 1074"
    by simp
  then show ?thesis
    by (simp only: ulp_def)
qed


lemma fl_tiny:
  assumes "0 \<le> x" and "x \<le> 2 powi (- 1075)"
  shows "fl x = Finite 0"
proof (cases "x = 0")
  case True
  then show ?thesis
    by (simp add: fl_def)
next
  case False
  with assms(1) have pos: "0 < x"
    by simp
  have "x < 2 powi (- 1022)"
    using assms(2) pow2_strict_mono [of "- 1075" "- 1022"] by simp
  then have u: "ulp x = 2 powi (- 1074)"
    using pos by (rule ulp_tiny [rotated])
  have "(2::rat) powi (- 1075 + 1) = 2 * 2 powi (- 1075)"
    by (rule pow2_Suc)
  then have "2 * 2 powi (- 1075) = ulp x"
    by (simp only: u) simp
  then have "x \<le> ulp x / 2"
    using assms(2) by simp
  then have "x / ulp x \<le> 1 / 2"
    using ulp_pos [of x] by (simp add: field_simps)
  moreover have "0 \<le> x / ulp x"
    using pos ulp_pos [of x] by simp
  ultimately have "round_half_even (x / ulp x) = 0"
    by (rule round_half_even_zero [rotated])
  then show ?thesis
    using pos by (simp add: fl_of_pos)
qed


lemma fl_above_tiny:
  assumes "2 powi (- 1075) < x"
  shows "fl x = PosInf \<or> (\<exists>r. fl x = Finite r \<and> 0 < r \<and> r \<le> 2 * x)"
proof -
  have pos: "0 < x"
    using pow2_pos [of "- 1075"] assms by (rule less_trans)
  have half: "1 / 2 < x / ulp x"
  proof (cases "x < 2 powi (- 1022)")
    case True
    then have u: "ulp x = 2 powi (- 1074)"
      using pos by (rule ulp_tiny [rotated])
    have "(2::rat) powi (- 1075 + 1) = 2 * 2 powi (- 1075)"
      by (rule pow2_Suc)
    then have "2 * 2 powi (- 1075) = ulp x"
      by (simp only: u) simp
    then have "ulp x / 2 < x"
      using assms by simp
    then show ?thesis
      using ulp_pos [of x] by (simp add: field_simps)
  next
    case False
    then have "2 powi (- 1074) \<le> x"
      using pow2_mono [of "- 1074" "- 1022"] by simp
    then have "ulp x \<le> x"
      by (rule ulp_le)
    then have "1 \<le> x / ulp x"
      using ulp_pos [of x] by (simp add: field_simps)
    then show ?thesis
      by linarith
  qed
  let ?m = "round_half_even (x / ulp x)"
  have m1: "1 \<le> ?m"
    using half by (rule round_half_even_pos)
  have "of_int ?m \<le> x / ulp x + 1 / 2"
    using round_half_even_bounds by blast
  with half have "of_int ?m \<le> 2 * (x / ulp x)"
    by simp
  then have upper: "of_int ?m * ulp x \<le> 2 * x"
    using ulp_pos [of x] by (simp add: field_simps)
  have lower: "0 < of_int ?m * ulp x"
    using m1 ulp_pos [of x] by simp
  show ?thesis
    unfolding fl_of_pos [OF pos] using lower upper by (auto simp del: power_int_numeral)
qed

lemma fl_nonpos:
  assumes "x \<le> 0"
  shows "float_le (fl x) 0"
proof (cases "x = 0")
  case True
  then show ?thesis
    by (simp add: fl_def)
next
  case False
  with assms have neg: "x < 0"
    by simp
  then have "0 \<le> (- x) / ulp (- x)"
    using ulp_pos [of "- x"] by (intro divide_nonneg_pos) simp_all
  then have "0 \<le> round_half_even ((- x) / ulp (- x))"
    by (rule round_half_even_nonneg)
  then have "0 \<le> rat_of_int (round_half_even ((- x) / ulp (- x))) * ulp (- x)"
    using ulp_pos [of "- x"] by simp
  then show ?thesis
    unfolding fl_of_neg [OF neg] by (auto simp del: power_int_numeral)
qed

lemma fl_le_zero_iff: "float_le (fl x) 0 \<longleftrightarrow> x \<le> 2 powi (- 1075)"
proof (cases "x \<le> 0")
  case True
  then have "x \<le> 2 powi (- 1075)"
    using pow2_pos [of "- 1075"] by (simp only: order_trans [OF _ less_imp_le])
  then show ?thesis
    using fl_nonpos [OF True] by (simp only:)
next
  case False
  then have pos: "0 \<le> x"
    by simp
  show ?thesis
  proof (cases "x \<le> 2 powi (- 1075)")
    case True
    then show ?thesis
      using fl_tiny [OF pos True] False by (simp only: float_le.simps) simp
  next
    case False
    then have "2 powi (- 1075) < x"
      by (simp only: not_le)
    from fl_above_tiny [OF this] have "\<not> float_le (fl x) 0"
      by (auto simp del: power_int_numeral_neg_numeral)
    with False show ?thesis
      by (simp only:)
  qed
qed

lemma fl_normal:
  assumes "2 powi (- 1074) \<le> x" and "x \<le> 2 powi 1022"
  shows "\<exists>r. fl x = Finite r \<and> x / 2 \<le> r \<and> r \<le> 2 * x"
proof -
  have pos: "0 < x"
    using pow2_pos [of "- 1074"] assms(1) by (rule less_le_trans)
  let ?m = "round_half_even (x / ulp x)"
  define u where "u = ulp x"
  define r where "r = of_int ?m * u"
  define B :: rat where "B = 2 powi 1022"
  have upos: "0 < u"
    unfolding u_def by (rule ulp_pos)
  have u: "u \<le> x"
    unfolding u_def using assms(1) by (rule ulp_le)
  have b: "x / u - 1 / 2 \<le> of_int ?m" "of_int ?m \<le> x / u + 1 / 2"
    unfolding u_def using round_half_even_bounds by blast+
  have lo: "x - u / 2 \<le> r"
    unfolding r_def using b(1) upos by (simp add: field_simps)
  have hi: "r \<le> x + u / 2"
    unfolding r_def using b(2) upos by (simp add: field_simps)
  have pows: "(2::rat) powi (1022 + 1) = 2 * 2 powi 1022" "(2::rat) powi 1023 < 2 powi 1024"
    by (rule pow2_Suc, rule pow2_strict_mono) simp
  define T :: rat where "T = 2 powi 1024"
  have big: "2 * B < T"
    unfolding B_def T_def using pows by (simp del: power_int_numeral)
  have "x \<le> B"
    unfolding B_def by (rule assms(2))
  moreover have "0 < B"
    unfolding B_def by (rule pow2_pos)
  ultimately have "r < T"
    using hi u big by linarith
  then have "\<not> 2 powi 1024 \<le> r"
    unfolding T_def by (simp only: not_le)
  then have "fl x = Finite r"
    unfolding fl_of_pos [OF pos] r_def u_def by (simp only: if_False)
  moreover have "x / 2 \<le> r" "r \<le> 2 * x"
    using lo hi u by linarith+
  ultimately show ?thesis
    by blast
qed

lemma fl_small_pos:
  assumes "2 powi (- 1075) < x" and "x \<le> 2 powi 1022"
  shows "\<exists>r. fl x = Finite r \<and> 0 < r \<and> r \<le> 2 * x"
proof -
  from fl_above_tiny [OF assms(1)] show ?thesis
  proof
    assume inf: "fl x = PosInf"
    have "2 powi (- 1074) \<le> x \<or> x < 2 powi (- 1074)"
      by linarith
    then show ?thesis
    proof
      assume "2 powi (- 1074) \<le> x"
      from fl_normal [OF this assms(2)] inf show ?thesis
        by auto
    next
      assume small: "x < 2 powi (- 1074)"
      have pos: "0 < x"
        using pow2_pos [of "- 1075"] assms(1) by (rule less_trans)
      have "x < 2 powi (- 1022)"
        using small pow2_mono [of "- 1074" "- 1022"] by simp
      then have u: "ulp x = 2 powi (- 1074)"
        using pos by (rule ulp_tiny [rotated])
      define m where "m = round_half_even (x / ulp x)"
      have "x / ulp x < 1"
        using small ulp_pos [of x] unfolding u by (simp only: divide_less_eq_1_pos)
      moreover have "of_int m \<le> x / ulp x + 1 / 2"
        unfolding m_def using round_half_even_bounds by blast
      ultimately have "rat_of_int m < 2"
        by linarith
      then have "m \<le> 1"
        by linarith
      then have "rat_of_int m \<le> 1"
        by simp
      then have "of_int m * ulp x \<le> 1 * 2 powi (- 1074)"
        unfolding u using pow2_pos [of "- 1074"] by (intro mult_right_mono) simp_all
      also have "\<dots> < 2 powi 1024"
        using pow2_strict_mono [of "- 1074" 1024] by simp
      finally have "\<not> 2 powi 1024 \<le> of_int m * ulp x"
        by (simp only: not_le)
      then have "fl x \<noteq> PosInf"
        unfolding fl_of_pos [OF pos] m_def by (simp only: if_False) simp
      with inf show ?thesis
        by simp
    qed
  qed
qed


lemma metres_le_zero_iff:
  "float_le (fl (a / 100)) 0 \<longleftrightarrow> a \<le> 100 * 2 powi (- 1075)"
proof -
  have "a / 100 \<le> 2 powi (- 1075) \<longleftrightarrow> a \<le> 100 * 2 powi (- 1075)"
    by (simp only: pos_divide_le_eq [of 100] zero_less_numeral mult.commute)
  then show ?thesis
    by (simp only: fl_le_zero_iff)
qed

lemma bmi_calc_unfold:
  "bmi_calc \<lparr>height_cm = h, weight_kg = w\<rparr> =
     (case float_div h (Finite 100) of
        None \<Rightarrow> Inl ZeroDivisionError
      | Some h_m \<Rightarrow>
          if float_le h_m 0
          then Inl (HTTPException 400 (ascii ''Height must be greater than 0''))
          else (case float_div w (float_mul h_m h_m) of
                  None \<Rightarrow> Inl ZeroDivisionError
                | Some bmi \<Rightarrow>
                    Inr [(ascii ''bmi'', PFloat (py_round1 bmi)),
                         (ascii ''category'', PStr (bmi_category bmi))]))"
  by (simp add: bmi_calc_def)

lemma bmi_calc_rejects_iff:
  "bmi_calc \<lparr>height_cm = h, weight_kg = w\<rparr> =
      Inl (HTTPException 400 (ascii ''Height must be greater than 0''))
   \<longleftrightarrow> float_le h (100 * 2 powi (- 1075))"
proof (cases h)
  case (Finite a)
  have "float_div (Finite a) (Finite 100) = Some (fl (a / 100))"
    by simp
  then show ?thesis
    unfolding bmi_calc_unfold Finite
    by (simp only: option.case float_le.simps metres_le_zero_iff [symmetric]
        split: if_split option.split) simp
next
  case PosInf
  then show ?thesis
    unfolding bmi_calc_unfold by (simp split: option.split)
next
  case NegInf
  then show ?thesis
    unfolding bmi_calc_unfold by (simp split: option.split)
next
  case NaN
  then show ?thesis
    unfolding bmi_calc_unfold by (simp split: option.split)
qed


lemma pow2_add: "(2::rat) powi (m + n) = 2 powi m * 2 powi n"
  by (simp add: power_int_add)

text \<open>Heights from \<open>2^-500\<close> to \<open>2^500\<close> centimetres: both divisions succeed.\<close>

lemma bmi_calc_returns:
  assumes lo: "2 powi (- 500) \<le> a" and hi: "a \<le> 2 powi 500"
  shows "\<exists>h_m p bmi.
      float_div (Finite a) (Finite 100) = Some (Finite h_m) \<and> 0 < h_m
    \<and> float_mul (Finite h_m) (Finite h_m) = Finite p \<and> 0 < p
    \<and> float_div w (Finite p) = Some bmi
    \<and> bmi_calc \<lparr>height_cm = Finite a, weight_kg = w\<rparr> =
        Inr [(ascii ''bmi'', PFloat (py_round1 bmi)),
             (ascii ''category'', PStr (bmi_category bmi))]"
proof -
  define L :: rat where "L = 2 powi (- 508)"
  define U :: rat where "U = 2 powi 501"
  have Lpos: "0 < L" and Upos: "0 < U"
    unfolding L_def U_def by (rule pow2_pos)+
  have "(2::rat) powi (- 508 + 8) = 2 powi (- 508) * 2 powi 8"
    by (rule pow2_add)
  then have L256: "2 powi (- 500) = L * 256"
    unfolding L_def by simp
  have "(2::rat) powi (500 + 1) = 2 * 2 powi 500"
    by (rule pow2_Suc)
  then have U2: "U = 2 * 2 powi 500"
    unfolding U_def by simp
  have x_lo: "2 * L \<le> a / 100"
    using lo Lpos unfolding L256 by simp
  have x_hi: "a / 100 \<le> U / 2"
    using hi pow2_pos [of 500] unfolding U2 by simp
  have "2 powi (- 1074) \<le> L"
    unfolding L_def by (rule pow2_mono) simp
  then have n1: "2 powi (- 1074) \<le> a / 100"
    using x_lo Lpos by linarith
  have "U \<le> 2 powi 1022"
    unfolding U_def by (rule pow2_mono) simp
  then have n2: "a / 100 \<le> 2 powi 1022"
    using x_hi Upos by linarith
  from fl_normal [OF n1 n2] obtain h_m where h_m: "fl (a / 100) = Finite h_m"
    and h_lo: "a / 100 / 2 \<le> h_m" and h_hi: "h_m \<le> 2 * (a / 100)"
    by blast
  have hL: "L \<le> h_m" and hU: "h_m \<le> U"
    using h_lo h_hi x_lo x_hi by linarith+
  then have hpos: "0 < h_m"
    using Lpos by linarith
  have "L * L \<le> h_m * h_m"
    using hL Lpos by (intro mult_mono) simp_all
  moreover have "(2::rat) powi (- 508 + - 508) = L * L"
    unfolding L_def by (rule pow2_add)
  moreover have "(2::rat) powi (- 1074) \<le> 2 powi (- 508 + - 508)"
    by (rule pow2_mono) simp
  ultimately have s1: "2 powi (- 1074) \<le> h_m * h_m"
    by linarith
  have "h_m * h_m \<le> U * U"
    using hU hpos by (intro mult_mono) simp_all
  moreover have "(2::rat) powi (501 + 501) = U * U"
    unfolding U_def by (rule pow2_add)
  moreover have "(2::rat) powi (501 + 501) \<le> 2 powi 1022"
    by (rule pow2_mono) simp
  ultimately have s2: "h_m * h_m \<le> 2 powi 1022"
    by linarith
  from fl_normal [OF s1 s2] obtain p where p: "fl (h_m * h_m) = Finite p"
    and p_lo: "h_m * h_m / 2 \<le> p"
    by blast
  have "0 < h_m * h_m"
    using hpos by simp
  then have ppos: "0 < p"
    using p_lo by linarith
  have metres: "float_div (Finite a) (Finite 100) = Some (Finite h_m)"
    using h_m by simp
  have square: "float_mul (Finite h_m) (Finite h_m) = Finite p"
    using p by simp
  obtain bmi where bmi: "float_div w (Finite p) = Some bmi"
    using ppos by (cases w) simp_all
  have "bmi_calc \<lparr>height_cm = Finite a, weight_kg = w\<rparr> =
        Inr [(ascii ''bmi'', PFloat (py_round1 bmi)),
             (ascii ''category'', PStr (bmi_category bmi))]"
    unfolding bmi_calc_unfold metres using hpos square bmi by simp
  with metres square bmi hpos ppos show ?thesis
    by blast
qed

text \<open>
  Heights above \<open>100 * 2^-1075\<close> and up to \<open>100 * 2^-539\<close> centimetres: the height in
  metres is positive, its square underflows to zero, and the division raises.
\<close>

lemma bmi_calc_raises:
  assumes lo: "100 * 2 powi (- 1075) < a" and hi: "a \<le> 100 * 2 powi (- 539)"
  shows "\<exists>h_m.
      float_div (Finite a) (Finite 100) = Some (Finite h_m) \<and> 0 < h_m
    \<and> float_mul (Finite h_m) (Finite h_m) = Finite 0
    \<and> bmi_calc \<lparr>height_cm = Finite a, weight_kg = w\<rparr> = Inl ZeroDivisionError"
proof -
  define S :: rat where "S = 2 powi (- 539)"
  have Spos: "0 < S"
    unfolding S_def by (rule pow2_pos)
  have x_lo: "2 powi (- 1075) < a / 100"
    using lo by simp
  have x_hi: "a / 100 \<le> S"
    unfolding S_def using hi by simp
  have "S \<le> 2 powi 1022"
    unfolding S_def by (rule pow2_mono) simp
  with x_hi have "a / 100 \<le> 2 powi 1022"
    by linarith
  from fl_small_pos [OF x_lo this] obtain h_m where h_m: "fl (a / 100) = Finite h_m"
    and hpos: "0 < h_m" and h_hi: "h_m \<le> 2 * (a / 100)"
    by blast
  have "h_m \<le> 2 * S"
    using h_hi x_hi by linarith
  then have "h_m * h_m \<le> (2 * S) * (2 * S)"
    using hpos by (intro mult_mono) simp_all
  moreover have "(2::rat) powi (- 538 + - 538) = (2 * S) * (2 * S)"
  proof -
    have "(2::rat) powi (- 539 + 1) = 2 * S"
      unfolding S_def by (rule pow2_Suc)
    then have "(2::rat) powi (- 538) = 2 * S"
      by simp
    then show ?thesis
      by (simp only: pow2_add)
  qed
  moreover have "(2::rat) powi (- 538 + - 538) \<le> 2 powi (- 1075)"
    by (rule pow2_mono) simp
  ultimately have "h_m * h_m \<le> 2 powi (- 1075)"
    by linarith
  moreover have "0 \<le> h_m * h_m"
    by simp
  ultimately have zero: "fl (h_m * h_m) = Finite 0"
    by (rule fl_tiny [rotated])
  have metres: "float_div (Finite a) (Finite 100) = Some (Finite h_m)"
    using h_m by simp
  have square: "float_mul (Finite h_m) (Finite h_m) = Finite 0"
    using zero by simp
  have "bmi_calc \<lparr>height_cm = Finite a, weight_kg = w\<rparr> = Inl ZeroDivisionError"
    unfolding bmi_calc_unfold metres using hpos square by simp
  with metres square hpos show ?thesis
    by blast
qed

lemma floor_log2_unique:
  assumes "2 powi e \<le> a" and "a < 2 powi (e + 1)"
  shows "floor_log2 a = e"
proof -
  have pos: "0 < a"
    using pow2_pos [of e] assms(1) by (rule less_le_trans)
  from floor_log2_bounds [OF pos]
  have b: "2 powi floor_log2 a \<le> a" "a < 2 powi (floor_log2 a + 1)"
    by blast+
  have "(2::rat) powi floor_log2 a < 2 powi (e + 1)"
    using b(1) assms(2) by (rule le_less_trans)
  then have "floor_log2 a < e + 1"
    by (rule pow2_less_imp)
  moreover have "(2::rat) powi e < 2 powi (floor_log2 a + 1)"
    using assms(1) b(2) by (rule le_less_trans)
  then have "e < floor_log2 a + 1"
    by (rule pow2_less_imp)
  ultimately show ?thesis
    by simp
qed

text \<open>Rounding a value whose binade is known.\<close>

lemma fl_eval:
  assumes "2 powi e \<le> x" and "x < 2 powi (e + 1)" and "- 1022 \<le> e"
    and "round_half_even (x / 2 powi (e - 52)) = m"
    and "rat_of_int m * 2 powi (e - 52) < 2 powi 1024"
  shows "fl x = Finite (of_int m * 2 powi (e - 52))"
proof -
  have pos: "0 < x"
    using pow2_pos [of e] assms(1) by (rule less_le_trans)
  have "floor_log2 x = e"
    using assms(1,2) by (rule floor_log2_unique)
  then have "max (floor_log2 x) (- 1022) - 52 = e - 52"
    using assms(3) by simp
  then have u: "ulp x = 2 powi (e - 52)"
    by (simp only: ulp_def)
  show ?thesis
    unfolding fl_of_pos [OF pos] u assms(4) using assms(5) by (simp only: not_le [symmetric] if_False)
qed

text \<open>A normal binary64 number, \<open>m * 2^q\<close> with a 53-bit \<open>m\<close>, rounds to itself.\<close>

lemma fl_representable:
  assumes "2 ^ 52 \<le> m" and "m < 2 ^ 53" and "- 1074 \<le> q" and "q \<le> 971"
  shows "fl (of_int m * 2 powi q) = Finite (of_int m * 2 powi q)"
proof -
  define P :: rat where "P = 2 powi q"
  have Ppos: "0 < P"
    unfolding P_def by (rule pow2_pos)
  have "rat_of_int (2 ^ 52) \<le> of_int m" "rat_of_int m < of_int (2 ^ 53)"
    using assms(1,2) by (simp_all only: of_int_le_iff of_int_less_iff)
  then have m_lo: "(2::rat) powi 52 \<le> of_int m" and m_hi: "rat_of_int m < 2 powi 53"
    by simp_all
  have e1: "(2::rat) powi (q + 52) = P * 2 powi 52" and e2: "(2::rat) powi (q + 52 + 1) = P * 2 powi 53"
    unfolding P_def by (simp_all only: pow2_add add.assoc) simp_all
  have lo: "2 powi (q + 52) \<le> of_int m * P"
    unfolding e1 using m_lo Ppos by (simp only: mult.commute [of P] mult_le_cancel_right_pos)
  have hi: "of_int m * P < 2 powi (q + 52 + 1)"
    unfolding e2 using m_hi Ppos by (simp only: mult.commute [of P] mult_less_cancel_right_pos)
  have "of_int m * P / 2 powi (q + 52 - 52) = of_int m"
    using Ppos unfolding P_def by simp
  then have r: "round_half_even (of_int m * P / 2 powi (q + 52 - 52)) = m"
    by (simp only: round_half_even_of_int)
  have "(2::rat) powi (q + 52 + 1) \<le> 2 powi 1024"
    using assms(4) by (intro pow2_mono) simp
  with hi have "rat_of_int m * P < 2 powi 1024"
    by (rule less_le_trans)
  moreover have qq: "q + 52 - 52 = q"
    by simp
  ultimately have "rat_of_int m * 2 powi (q + 52 - 52) < 2 powi 1024"
    unfolding P_def by (simp only:)
  moreover have "- 1022 \<le> q + 52"
    using assms(3) by simp
  ultimately have "fl (of_int m * P) = Finite (of_int m * 2 powi (q + 52 - 52))"
    using lo hi r by (intro fl_eval)
  then show ?thesis
    unfolding P_def by (simp only: qq)
qed


lemma round_half_even_eq:
  assumes "of_int m - 1 / 2 < x" and "x < of_int m + 1 / 2"
  shows "round_half_even x = m"
proof -
  from round_half_even_bounds [of x]
  have "x - 1 / 2 \<le> of_int (round_half_even x)" "of_int (round_half_even x) \<le> x + 1 / 2"
    by blast+
  with assms have "rat_of_int (round_half_even x) < of_int m + 1"
    "rat_of_int m - 1 < of_int (round_half_even x)"
    by linarith+
  then have "round_half_even x < m + 1" "m - 1 < round_half_even x"
    by linarith+
  then show ?thesis
    by simp
qed

lemma fl_min_subnormal: "fl (2 powi (- 1074)) = Finite (2 powi (- 1074))"
proof -
  have pos: "(0::rat) < 2 powi (- 1074)"
    by (rule pow2_pos)
  have "(2::rat) powi (- 1074) < 2 powi (- 1022)"
    by (rule pow2_strict_mono) simp
  then have u: "ulp (2 powi (- 1074)) = 2 powi (- 1074)"
    using pos by (rule ulp_tiny [rotated])
  have "round_half_even ((2::rat) powi (- 1074) / 2 powi (- 1074)) = 1"
    using round_half_even_of_int [of 1] by simp
  moreover have "(2::rat) powi (- 1074) < 2 powi 1024"
    by (rule pow2_strict_mono) simp
  ultimately show ?thesis
    unfolding fl_of_pos [OF pos] u by (simp del: power_int_numeral power_int_numeral_neg_numeral)
qed

lemma fl_70: "fl 70 = Finite 70"
  using fl_representable [of 4925812092436480 "- 46"] by simp

lemma fl_1e_200: "fl (1723641332219371 / 2 ^ 715) = Finite (1723641332219371 / 2 ^ 715)"
  using fl_representable [of 6894565328877484 "- 717"] by simp


lemma example_metres: "fl (170 / 100) = Finite (7656119366529843 / 2 ^ 52)"
  using fl_eval [of 0 "170 / 100" 7656119366529843]
    round_half_even_eq [of 7656119366529843 "170 / 100 / 2 powi (0 - 52)"]
  by simp

lemma example_square:
  "fl (7656119366529843 / 2 ^ 52 * (7656119366529843 / 2 ^ 52)) = Finite (6507701461550366 / 2 ^ 51)"
  using fl_eval [of 1 "7656119366529843 / 2 ^ 52 * (7656119366529843 / 2 ^ 52)" 6507701461550366]
    round_half_even_eq [of 6507701461550366
      "7656119366529843 / 2 ^ 52 * (7656119366529843 / 2 ^ 52) / 2 powi (1 - 52)"]
  by simp

lemma example_quotient:
  "fl (70 / (6507701461550366 / 2 ^ 51)) = Finite (6817732999912084 / 2 ^ 48)"
  using fl_eval [of 4 "70 / (6507701461550366 / 2 ^ 51)" 6817732999912084]
    round_half_even_eq [of 6817732999912084 "70 / (6507701461550366 / 2 ^ 51) / 2 powi (4 - 52)"]
  by simp

lemma example_round:
  "py_round1 (Finite (6817732999912084 / 2 ^ 48)) = Finite (6811694436397875 / 2 ^ 48)"
proof -
  have "round_half_even (6817732999912084 / 2 ^ 48 * 10) = 242"
    by (rule round_half_even_eq) simp_all
  moreover have "fl (242 / 10) = Finite (6811694436397875 / 2 ^ 48)"
    using fl_eval [of 4 "242 / 10" 6811694436397875]
      round_half_even_eq [of 6811694436397875 "242 / 10 / 2 powi (4 - 52)"]
    by simp
  ultimately show ?thesis
    by simp
qed

lemma example_170_70:
  "bmi_calc \<lparr>height_cm = Finite 170, weight_kg = Finite 70\<rparr> =
     Inr [(ascii ''bmi'', PFloat (Finite (6811694436397875 / 2 ^ 48))),
          (ascii ''category'', PStr label_normal)]"
proof -
  have "float_div (Finite 170) (Finite 100) = Some (Finite (7656119366529843 / 2 ^ 52))"
    using example_metres by simp
  moreover have "float_mul (Finite (7656119366529843 / 2 ^ 52)) (Finite (7656119366529843 / 2 ^ 52))
      = Finite (6507701461550366 / 2 ^ 51)"
    using example_square by simp
  moreover have "float_div (Finite 70) (Finite (6507701461550366 / 2 ^ 51))
      = Some (Finite (6817732999912084 / 2 ^ 48))"
    using example_quotient by simp
  moreover have "bmi_category (Finite (6817732999912084 / 2 ^ 48)) = label_normal"
    by (simp add: bmi_category_def)
  ultimately show ?thesis
    unfolding bmi_calc_unfold by (simp only: option.case example_round float_le.simps) simp
qed

text \<open>Rounding is odd: the float of \<open>-x\<close> is the negated float of \<open>x\<close>.\<close>

lemma fl_minus: "fl (- x) = float_neg (fl x)"
proof (cases "x = 0")
  case True
  then show ?thesis
    by (simp add: fl_def)
next
  case False
  then consider "0 < x" | "x < 0"
    by linarith
  then show ?thesis
  proof cases
    case 1
    then have "- x < 0"
      by simp
    then show ?thesis
      unfolding fl_of_neg [OF \<open>- x < 0\<close>] fl_of_pos [OF 1]
      by (simp del: power_int_numeral)
  next
    case 2
    then have "0 < - x"
      by simp
    then show ?thesis
      unfolding fl_of_neg [OF 2] fl_of_pos [OF \<open>0 < - x\<close>]
      by (simp del: power_int_numeral)
  qed
qed

text \<open>From \<open>2^-1074\<close> on, rounding loses at most half of the value.\<close>

lemma fl_lower:
  assumes "2 powi (- 1074) \<le> x"
  shows "fl x = PosInf \<or> (\<exists>r. fl x = Finite r \<and> x / 2 \<le> r)"
proof -
  have pos: "0 < x"
    using pow2_pos [of "- 1074"] assms by (rule less_le_trans)
  define u where "u = ulp x"
  define r where "r = rat_of_int (round_half_even (x / u)) * u"
  have upos: "0 < u"
    unfolding u_def by (rule ulp_pos)
  have u: "u \<le> x"
    unfolding u_def using assms by (rule ulp_le)
  have "x / u - 1 / 2 \<le> of_int (round_half_even (x / u))"
    using round_half_even_bounds by blast
  then have "x - u / 2 \<le> r"
    unfolding r_def using upos by (simp add: field_simps)
  with u have "x / 2 \<le> r"
    by linarith
  moreover have "fl x = (if 2 powi 1024 \<le> r then PosInf else Finite r)"
    unfolding fl_of_pos [OF pos] r_def u_def ..
  ultimately show ?thesis
    by (cases "2 powi 1024 \<le> r") (simp_all del: power_int_numeral)
qed

text \<open>Up to \<open>2^1022\<close> in magnitude, rounding stays finite and at most doubles.\<close>

lemma fl_finite:
  assumes "\<bar>x\<bar> \<le> 2 powi 1022"
  shows "\<exists>r. fl x = Finite r \<and> \<bar>r\<bar> \<le> 2 * \<bar>x\<bar>"
proof -
  have nonneg: "\<exists>r. fl y = Finite r \<and> 0 \<le> r \<and> r \<le> 2 * y"
    if "0 \<le> y" "y \<le> 2 powi 1022" for y
  proof (cases "y \<le> 2 powi (- 1075)")
    case True
    with that(1) have "fl y = Finite 0"
      by (rule fl_tiny)
    with that(1) show ?thesis
      by simp
  next
    case False
    then have "2 powi (- 1075) < y"
      by (simp only: not_le)
    from fl_small_pos [OF this that(2)] show ?thesis
      by (auto simp del: power_int_numeral power_int_numeral_neg_numeral)
  qed
  show ?thesis
  proof (cases "0 \<le> x")
    case True
    with assms have "x \<le> 2 powi 1022"
      by (simp only: abs_of_nonneg)
    from nonneg [OF True this] True show ?thesis
      by (auto simp del: power_int_numeral)
  next
    case False
    then have neg: "0 \<le> - x" and ab: "\<bar>x\<bar> = - x"
      by simp_all
    with assms have "- x \<le> 2 powi 1022"
      by (simp only:)
    from nonneg [OF neg this] obtain r where r: "fl (- x) = Finite r" "0 \<le> r" "r \<le> 2 * (- x)"
      by blast
    have "fl x = float_neg (fl (- x))"
      using fl_minus [of "- x"] by simp
    then have "fl x = Finite (- r)"
      by (simp only: r float_neg.simps)
    with r ab show ?thesis
      by (auto simp del: power_int_numeral)
  qed
qed


lemma bmi_calc_value:
  assumes "float_div h (Finite 100) = Some h_m" and "\<not> float_le h_m 0"
    and "float_div w (float_mul h_m h_m) = Some b"
  shows "bmi_calc \<lparr>height_cm = h, weight_kg = w\<rparr> =
      Inr [(ascii ''bmi'', PFloat (py_round1 b)), (ascii ''category'', PStr (bmi_category b))]"
  unfolding bmi_calc_unfold using assms by simp

lemma bmi_route_error:
  "bmi_calc data = Inl e \<Longrightarrow> bmi_route data = Inl e"
  by (simp add: bmi_route_def)

lemma bmi_route_finite:
  "bmi_calc data = Inr [(ascii ''bmi'', PFloat (Finite x)), (ascii ''category'', PStr c)] \<Longrightarrow>
   bmi_route data = Inr [(ascii ''bmi'', PFloat (Finite x)), (ascii ''category'', PStr c)]"
  by (simp add: bmi_route_def json_compliant_def)

lemma bmi_route_not_finite:
  "bmi_calc data = Inr [(ascii ''bmi'', PFloat y), (ascii ''category'', PStr c)] \<Longrightarrow>
   y = PosInf \<or> y = NegInf \<or> y = NaN \<Longrightarrow> bmi_route data = Inl ValueError"
  by (auto simp: bmi_route_def json_compliant_def)

lemma bmi_route_rejects_iff:
  "bmi_route \<lparr>height_cm = h, weight_kg = w\<rparr> =
      Inl (HTTPException 400 (ascii ''Height must be greater than 0''))
   \<longleftrightarrow> float_le h (100 * 2 powi (- 1075))"
proof -
  have "bmi_route data = Inl (HTTPException s d) \<longleftrightarrow> bmi_calc data = Inl (HTTPException s d)"
    for data s d
    by (cases "bmi_calc data") (simp_all add: bmi_route_def)
  then show ?thesis
    by (simp only: bmi_calc_rejects_iff)
qed

text \<open>
  From \<open>2^-529\<close> centimetres on, and for an infinite or NaN height, the height in
  metres is not at most zero and the division by its square does not raise.
\<close>

lemma bmi_calc_divides:
  assumes "h = PosInf \<or> h = NaN \<or> (\<exists>a. h = Finite a \<and> 2 powi (- 529) \<le> a)"
  shows "\<exists>h_m b. float_div h (Finite 100) = Some h_m \<and> \<not> float_le h_m 0
    \<and> float_div w (float_mul h_m h_m) = Some b"
proof -
  have inf: "\<exists>b. float_div w PosInf = Some b"
    by (cases w) simp_all
  have fin: "\<exists>b. float_div w (Finite p) = Some b" if "0 < p" for p
    using that by (cases w) simp_all
  from assms consider "h = PosInf" | "h = NaN" | a where "h = Finite a" "2 powi (- 529) \<le> a"
    by blast
  then show ?thesis
  proof cases
    case 1
    then show ?thesis
      using inf by simp
  next
    case 2
    then show ?thesis
      by simp
  next
    case 3
    define L :: rat where "L = 2 powi (- 536)"
    define M :: rat where "M = 2 powi (- 537)"
    have Lpos: "0 < L" and Mpos: "0 < M"
      unfolding L_def M_def by (rule pow2_pos)+
    have "(2::rat) powi (- 536 + 7) = 2 powi (- 536) * 2 powi 7"
      by (rule pow2_add)
    then have "2 powi (- 529) = L * 128"
      unfolding L_def by simp
    with 3(2) have "L * 128 \<le> a"
      by (simp only:)
    then have x_lo: "L \<le> a / 100"
      using Lpos by simp
    have "(2::rat) powi (- 537 + 1) = 2 * 2 powi (- 537)"
      by (rule pow2_Suc)
    then have LM: "L = 2 * M"
      unfolding L_def M_def by simp
    have "2 powi (- 1074) \<le> L"
      unfolding L_def by (rule pow2_mono) simp
    then have "2 powi (- 1074) \<le> a / 100"
      using x_lo by (rule order_trans)
    from fl_lower [OF this]
    consider "fl (a / 100) = PosInf" | r where "fl (a / 100) = Finite r" "a / 100 / 2 \<le> r"
      by blast
    then show ?thesis
    proof cases
      case 1
      then have "float_div h (Finite 100) = Some PosInf"
        unfolding 3(1) by simp
      then show ?thesis
        using inf by simp
    next
      case 2
      have rM: "M \<le> r"
        using 2(2) x_lo LM by linarith
      then have rpos: "0 < r"
        using Mpos by linarith
      have metres: "float_div h (Finite 100) = Some (Finite r)"
        unfolding 3(1) using 2(1) by simp
      have "M * M \<le> r * r"
        using rM Mpos by (intro mult_mono) simp_all
      moreover have "(2::rat) powi (- 537 + - 537) = M * M"
        unfolding M_def by (rule pow2_add)
      moreover have "(2::rat) powi (- 1075) < 2 powi (- 537 + - 537)"
        by (rule pow2_strict_mono) simp
      ultimately have "2 powi (- 1075) < r * r"
        by linarith
      from fl_above_tiny [OF this]
      have "\<exists>b. float_div w (fl (r * r)) = Some b"
        using inf fin by auto
      then have "\<exists>b. float_div w (float_mul (Finite r) (Finite r)) = Some b"
        by simp
      with metres rpos show ?thesis
        by auto
    qed
  qed
qed


lemma py_round1_zero: "py_round1 (Finite 0) = Finite 0"
  using round_half_even_of_int [of 0] by (simp add: fl_def)

lemma py_round1_finite:
  assumes "\<bar>y\<bar> \<le> 2 powi 1018"
  shows "\<exists>x. py_round1 (Finite y) = Finite x"
proof -
  define m where "m = round_half_even (y * 10)"
  define B :: rat where "B = 2 powi 1018"
  have "y * 10 - 1 / 2 \<le> of_int m" "rat_of_int m \<le> y * 10 + 1 / 2"
    unfolding m_def using round_half_even_bounds by blast+
  then have "\<bar>rat_of_int m / 10\<bar> \<le> \<bar>y\<bar> + 1"
    by (simp add: abs_le_iff field_simps) linarith
  moreover have "\<bar>y\<bar> \<le> B"
    unfolding B_def by (rule assms)
  moreover have "(1::rat) \<le> B"
    unfolding B_def using pow2_mono [of 0 1018] by simp
  moreover have "2 * B \<le> 2 powi 1022"
  proof -
    have "(2::rat) powi (1018 + 1) = 2 * 2 powi 1018"
      by (rule pow2_Suc)
    moreover have "(2::rat) powi (1018 + 1) \<le> 2 powi 1022"
      by (rule pow2_mono) simp
    ultimately show ?thesis
      unfolding B_def by (simp only:)
  qed
  ultimately have "\<bar>rat_of_int m / 10\<bar> \<le> 2 powi 1022"
    by linarith
  from fl_finite [OF this] show ?thesis
    unfolding m_def by (auto simp del: power_int_numeral)
qed

text \<open>
  From one centimetre on, with a weight of magnitude up to \<open>2^1000\<close>: the route
  returns, with a finite bmi.
\<close>

lemma bmi_route_returns:
  assumes "1 \<le> a" and "\<bar>v\<bar> \<le> 2 powi 1000"
  shows "\<exists>h_m b x.
      float_div (Finite a) (Finite 100) = Some h_m \<and> \<not> float_le h_m 0
    \<and> float_div (Finite v) (float_mul h_m h_m) = Some (Finite b)
    \<and> py_round1 (Finite b) = Finite x
    \<and> bmi_route \<lparr>height_cm = Finite a, weight_kg = Finite v\<rparr> =
        Inr [(ascii ''bmi'', PFloat (Finite x)),
             (ascii ''category'', PStr (bmi_category (Finite b)))]"
proof -
  have concl: ?thesis
    if "float_div (Finite a) (Finite 100) = Some h_m" "\<not> float_le h_m 0"
      "float_div (Finite v) (float_mul h_m h_m) = Some (Finite b)" "\<bar>b\<bar> \<le> 2 powi 1018"
    for h_m b
  proof -
    from py_round1_finite [OF that(4)] obtain x where x: "py_round1 (Finite b) = Finite x"
      by blast
    have "bmi_calc \<lparr>height_cm = Finite a, weight_kg = Finite v\<rparr> =
        Inr [(ascii ''bmi'', PFloat (Finite x)),
             (ascii ''category'', PStr (bmi_category (Finite b)))]"
      using bmi_calc_value [OF that(1,2,3)] by (simp only: x)
    then have "bmi_route \<lparr>height_cm = Finite a, weight_kg = Finite v\<rparr> =
        Inr [(ascii ''bmi'', PFloat (Finite x)),
             (ascii ''category'', PStr (bmi_category (Finite b)))]"
      by (rule bmi_route_finite)
    with that(1,2,3) x show ?thesis
      by blast
  qed
  have zero: "\<bar>0::rat\<bar> \<le> 2 powi 1018"
    using pow2_pos [of 1018] by simp
  define K :: rat where "K = 2 powi (- 8)"
  have Kpos: "0 < K"
    unfolding K_def by (rule pow2_pos)
  have "(2::rat) powi (- 8 + 8) = 2 powi (- 8) * 2 powi 8"
    by (rule pow2_add)
  then have K256: "K * 256 = 1"
    unfolding K_def by simp
  have x_lo: "2 * K \<le> a / 100"
    using assms(1) K256 Kpos by simp
  have "2 powi (- 1074) \<le> K"
    unfolding K_def by (rule pow2_mono) simp
  then have "2 powi (- 1074) \<le> a / 100"
    using x_lo Kpos by linarith
  from fl_lower [OF this]
  consider "fl (a / 100) = PosInf" | r where "fl (a / 100) = Finite r" "a / 100 / 2 \<le> r"
    by blast
  then show ?thesis
  proof cases
    case 1
    then have m: "float_div (Finite a) (Finite 100) = Some PosInf"
      by simp
    have n: "\<not> float_le PosInf 0"
      by simp
    have d: "float_div (Finite v) (float_mul PosInf PosInf) = Some (Finite 0)"
      by simp
    from m n d zero show ?thesis
      by (rule concl)
  next
    case 2
    have rK: "K \<le> r"
      using 2(2) x_lo by linarith
    then have rpos: "0 < r"
      using Kpos by linarith
    have metres: "float_div (Finite a) (Finite 100) = Some (Finite r)"
      using 2(1) by simp
    have nonpos: "\<not> float_le (Finite r) 0"
      using rpos by simp
    have square: "float_mul (Finite r) (Finite r) = fl (r * r)"
      by simp
    have "K * K \<le> r * r"
      using rK Kpos by (intro mult_mono) simp_all
    moreover have KK: "(2::rat) powi (- 8 + - 8) = K * K"
      unfolding K_def by (rule pow2_add)
    moreover have "(2::rat) powi (- 1074) \<le> 2 powi (- 8 + - 8)"
      by (rule pow2_mono) simp
    ultimately have "2 powi (- 1074) \<le> r * r"
      by linarith
    from fl_lower [OF this]
    consider "fl (r * r) = PosInf" | p where "fl (r * r) = Finite p" "r * r / 2 \<le> p"
      by blast
    then show ?thesis
    proof cases
      case 1
      then have "float_div (Finite v) (float_mul (Finite r) (Finite r)) = Some (Finite 0)"
        by simp
      with metres nonpos have "float_div (Finite a) (Finite 100) = Some (Finite r)"
        "\<not> float_le (Finite r) 0"
        "float_div (Finite v) (float_mul (Finite r) (Finite r)) = Some (Finite 0)"
        by blast+
      then show ?thesis
        using zero by (rule concl)
    next
      case 2
      define P :: rat where "P = 2 powi (- 17)"
      have Ppos: "0 < P"
        unfolding P_def by (rule pow2_pos)
      have "(2::rat) powi (- 17 + 1) = 2 * 2 powi (- 17)"
        by (rule pow2_Suc)
      then have "K * K = 2 * P"
        unfolding P_def KK [symmetric] by simp
      with \<open>K * K \<le> r * r\<close> 2(2) have pP: "P \<le> p"
        by linarith
      then have ppos: "0 < p"
        using Ppos by linarith
      have "\<bar>v\<bar> / p \<le> 2 powi 1000 / P"
        using assms(2) pP Ppos by (intro frac_le) simp_all
      moreover have "(2::rat) powi (1000 - (- 17)) = 2 powi 1000 / P"
        unfolding P_def by (rule power_int_diff) simp
      moreover have "(2::rat) powi (1000 - (- 17)) \<le> 2 powi 1017"
        by (rule pow2_mono) simp
      ultimately have q: "\<bar>v / p\<bar> \<le> 2 powi 1017"
        using ppos by (simp only: abs_divide abs_of_pos [OF ppos])
      have "(2::rat) powi 1017 \<le> 2 powi 1022"
        by (rule pow2_mono) simp
      with q have "\<bar>v / p\<bar> \<le> 2 powi 1022"
        by (rule order_trans)
      from fl_finite [OF this] obtain b where b: "fl (v / p) = Finite b" "\<bar>b\<bar> \<le> 2 * \<bar>v / p\<bar>"
        by blast
      have "(2::rat) powi (1017 + 1) = 2 * 2 powi 1017"
        by (rule pow2_Suc)
      then have "2 * (2::rat) powi 1017 = 2 powi 1018"
        by simp
      with b(2) q have bb: "\<bar>b\<bar> \<le> 2 powi 1018"
        by linarith
      have "float_div (Finite v) (float_mul (Finite r) (Finite r)) = Some (Finite b)"
        using 2(1) b(1) ppos by simp
      with metres nonpos have "float_div (Finite a) (Finite 100) = Some (Finite r)"
        "\<not> float_le (Finite r) 0"
        "float_div (Finite v) (float_mul (Finite r) (Finite r)) = Some (Finite b)"
        by blast+
      then show ?thesis
        using bb by (rule concl)
    qed
  qed
qed

subsection \<open>The BMI categories\<close>

lemma labels_distinct:
  "distinct [label_underweight, label_normal, label_overweight, label_obesity_1,
             label_obesity_2, label_obesity_3]"
  by (simp add: label_underweight_def label_normal_def label_overweight_def
      label_obesity_1_def label_obesity_2_def label_obesity_3_def)

lemma bmi_category_finite:
  "bmi_category (Finite x) =
     (if x < 37 / 2 then label_underweight
      else if x < 25 then label_normal
      else if x < 30 then label_overweight
      else if x < 35 then label_obesity_1
      else if x < 40 then label_obesity_2
      else label_obesity_3)"
  by (simp add: bmi_category_def)

lemma bmi_category_special:
  "bmi_category NegInf = label_underweight"
  "bmi_category PosInf = label_obesity_3"
  "bmi_category NaN = label_obesity_3"
  by (simp_all add: bmi_category_def)

text \<open>
  C2. The category of every float is one of the six labels, which are pairwise
  different. A finite value gets the label of the first threshold it is below, so each
  band is closed below and open above: underweight below 18.5, normal from 18.5 to below
  25, overweight from 25 to below 30, obesity I from 30 to below 35, obesity II from 35
  to below 40, obesity III from 40 on; exactly 25 is overweight. Negative infinity is
  underweight; positive infinity and NaN, below no threshold, are obesity III.
\<close>

theorem bmi_category_bands:
  "bmi_category bmi \<in> {label_underweight, label_normal, label_overweight, label_obesity_1,
      label_obesity_2, label_obesity_3}
   \<and> distinct [label_underweight, label_normal, label_overweight, label_obesity_1,
        label_obesity_2, label_obesity_3]
   \<and> bmi_category (Finite x) =
        (if x < 37 / 2 then label_underweight
         else if x < 25 then label_normal
         else if x < 30 then label_overweight
         else if x < 35 then label_obesity_1
         else if x < 40 then label_obesity_2
         else label_obesity_3)
   \<and> (bmi_category (Finite x) = label_underweight \<longleftrightarrow> x < 37 / 2)
   \<and> (bmi_category (Finite x) = label_normal \<longleftrightarrow> 37 / 2 \<le> x \<and> x < 25)
   \<and> (bmi_category (Finite x) = label_overweight \<longleftrightarrow> 25 \<le> x \<and> x < 30)
   \<and> (bmi_category (Finite x) = label_obesity_1 \<longleftrightarrow> 30 \<le> x \<and> x < 35)
   \<and> (bmi_category (Finite x) = label_obesity_2 \<longleftrightarrow> 35 \<le> x \<and> x < 40)
   \<and> (bmi_category (Finite x) = label_obesity_3 \<longleftrightarrow> 40 \<le> x)
   \<and> bmi_category (Finite 25) = label_overweight
   \<and> bmi_category NegInf = label_underweight
   \<and> bmi_category PosInf = label_obesity_3
   \<and> bmi_category NaN = label_obesity_3"
proof -
  have member: "bmi_category bmi \<in> {label_underweight, label_normal, label_overweight,
      label_obesity_1, label_obesity_2, label_obesity_3}"
    by (simp add: bmi_category_def)
  have bands:
    "(bmi_category (Finite x) = label_underweight \<longleftrightarrow> x < 37 / 2)
   \<and> (bmi_category (Finite x) = label_normal \<longleftrightarrow> 37 / 2 \<le> x \<and> x < 25)
   \<and> (bmi_category (Finite x) = label_overweight \<longleftrightarrow> 25 \<le> x \<and> x < 30)
   \<and> (bmi_category (Finite x) = label_obesity_1 \<longleftrightarrow> 30 \<le> x \<and> x < 35)
   \<and> (bmi_category (Finite x) = label_obesity_2 \<longleftrightarrow> 35 \<le> x \<and> x < 40)
   \<and> (bmi_category (Finite x) = label_obesity_3 \<longleftrightarrow> 40 \<le> x)"
    using labels_distinct unfolding bmi_category_finite by auto
  have "bmi_category (Finite 25) = label_overweight"
    unfolding bmi_category_finite by simp
  with member bands labels_distinct bmi_category_finite [of x] bmi_category_special
  show ?thesis
    by (simp only: simp_thms)
qed

theorem bmi_category_bands_witness:
  "bmi_category (Finite (242 / 10)) = label_normal
   \<and> bmi_category (Finite 25) = label_overweight
   \<and> bmi_category (Finite (- 3)) = label_underweight
   \<and> bmi_category (Finite 40) = label_obesity_3
   \<and> label_normal \<noteq> label_overweight"
  using bmi_category_bands [of NaN "242 / 10"] bmi_category_bands [of NaN "- 3"]
    bmi_category_bands [of NaN 40]
  by simp

subsection \<open>The BMI calculation\<close>

lemma bmi_calc_nonpositive_height:
  assumes "float_le h 0"
  shows "bmi_calc \<lparr>height_cm = h, weight_kg = w\<rparr>
    = Inl (HTTPException 400 (ascii ''Height must be greater than 0''))"
proof -
  have "(0::rat) \<le> 100 * 2 powi (- 1075)"
    using pow2_pos [of "- 1075"] by simp
  with assms have "float_le h (100 * 2 powi (- 1075))"
    by (cases h) simp_all
  then show ?thesis
    by (simp only: bmi_calc_rejects_iff)
qed

text \<open>
  C1, as the code has it. The arithmetic is binary64. The request is rejected with
  status 400, by the handler and so by the route, exactly when the height in metres,
  the float quotient \<open>height_cm / 100.0\<close>, is at most zero: that is every
  \<open>height_cm \<le> 0\<close> (negative infinity included), and also the positive heights up to
  \<open>100 * 2^-1075\<close>, whose quotient underflows to zero; the weight plays no part.
  Whenever the height in metres \<open>h_m\<close> is not at most zero and the division of the weight
  by the float square of \<open>h_m\<close> gives a float \<open>b\<close>, the handler returns
  \<open>round(b, 1)\<close> as bmi with the category of \<open>b\<close>, and the route returns that body when
  the rounded value is finite. The division gives a float for every height from
  \<open>2^-529\<close> centimetres on, infinity and NaN included, whatever the weight; and for
  every finite height from one centimetre on with a finite weight of magnitude up to
  \<open>2^1000\<close> the quotient and its rounding are finite, and the route returns them.
\<close>

theorem bmi_calc_binary64:
  "(bmi_calc \<lparr>height_cm = h, weight_kg = w\<rparr>
       = Inl (HTTPException 400 (ascii ''Height must be greater than 0''))
     \<longleftrightarrow> float_le h (100 * 2 powi (- 1075)))
   \<and> (bmi_route \<lparr>height_cm = h, weight_kg = w\<rparr>
       = Inl (HTTPException 400 (ascii ''Height must be greater than 0''))
     \<longleftrightarrow> float_le h (100 * 2 powi (- 1075)))
   \<and> (float_le h 0 \<longrightarrow>
        bmi_route \<lparr>height_cm = h, weight_kg = w\<rparr>
          = Inl (HTTPException 400 (ascii ''Height must be greater than 0'')))
   \<and> status_code (HTTPException 400 (ascii ''Height must be greater than 0'')) = 400
   \<and> (\<forall>h_m b. float_div h (Finite 100) = Some h_m \<and> \<not> float_le h_m 0
          \<and> float_div w (float_mul h_m h_m) = Some b \<longrightarrow>
        bmi_calc \<lparr>height_cm = h, weight_kg = w\<rparr> =
          Inr [(ascii ''bmi'', PFloat (py_round1 b)),
               (ascii ''category'', PStr (bmi_category b))]
        \<and> (\<forall>x. py_round1 b = Finite x \<longrightarrow>
             bmi_route \<lparr>height_cm = h, weight_kg = w\<rparr> =
               Inr [(ascii ''bmi'', PFloat (Finite x)),
                    (ascii ''category'', PStr (bmi_category b))]))
   \<and> (h = PosInf \<or> h = NaN \<or> (\<exists>a. h = Finite a \<and> 2 powi (- 529) \<le> a) \<longrightarrow>
        (\<exists>h_m b. float_div h (Finite 100) = Some h_m \<and> \<not> float_le h_m 0
           \<and> float_div w (float_mul h_m h_m) = Some b))
   \<and> (\<forall>a v. h = Finite a \<and> 1 \<le> a \<and> w = Finite v \<and> \<bar>v\<bar> \<le> 2 powi 1000 \<longrightarrow>
        (\<exists>h_m b x.
            float_div h (Finite 100) = Some h_m \<and> \<not> float_le h_m 0
          \<and> float_div w (float_mul h_m h_m) = Some (Finite b)
          \<and> py_round1 (Finite b) = Finite x
          \<and> bmi_route \<lparr>height_cm = h, weight_kg = w\<rparr> =
              Inr [(ascii ''bmi'', PFloat (Finite x)),
                   (ascii ''category'', PStr (bmi_category (Finite b)))]))"
proof (intro conjI allI impI)
  show "bmi_calc \<lparr>height_cm = h, weight_kg = w\<rparr>
       = Inl (HTTPException 400 (ascii ''Height must be greater than 0''))
     \<longleftrightarrow> float_le h (100 * 2 powi (- 1075))"
    by (rule bmi_calc_rejects_iff)
next
  show "bmi_route \<lparr>height_cm = h, weight_kg = w\<rparr>
       = Inl (HTTPException 400 (ascii ''Height must be greater than 0''))
     \<longleftrightarrow> float_le h (100 * 2 powi (- 1075))"
    by (rule bmi_route_rejects_iff)
next
  assume "float_le h 0"
  then have "bmi_calc \<lparr>height_cm = h, weight_kg = w\<rparr>
      = Inl (HTTPException 400 (ascii ''Height must be greater than 0''))"
    by (rule bmi_calc_nonpositive_height)
  then show "bmi_route \<lparr>height_cm = h, weight_kg = w\<rparr>
      = Inl (HTTPException 400 (ascii ''Height must be greater than 0''))"
    by (rule bmi_route_error)
next
  show "status_code (HTTPException 400 (ascii ''Height must be greater than 0'')) = 400"
    by simp
next
  fix h_m b
  assume "float_div h (Finite 100) = Some h_m \<and> \<not> float_le h_m 0
    \<and> float_div w (float_mul h_m h_m) = Some b"
  then show "bmi_calc \<lparr>height_cm = h, weight_kg = w\<rparr> =
      Inr [(ascii ''bmi'', PFloat (py_round1 b)), (ascii ''category'', PStr (bmi_category b))]"
    using bmi_calc_value by blast
next
  fix h_m b x
  assume "float_div h (Finite 100) = Some h_m \<and> \<not> float_le h_m 0
    \<and> float_div w (float_mul h_m h_m) = Some b"
  then have "bmi_calc \<lparr>height_cm = h, weight_kg = w\<rparr> =
      Inr [(ascii ''bmi'', PFloat (py_round1 b)), (ascii ''category'', PStr (bmi_category b))]"
    using bmi_calc_value by blast
  moreover assume "py_round1 b = Finite x"
  ultimately have "bmi_calc \<lparr>height_cm = h, weight_kg = w\<rparr> =
      Inr [(ascii ''bmi'', PFloat (Finite x)), (ascii ''category'', PStr (bmi_category b))]"
    by (simp only:)
  then show "bmi_route \<lparr>height_cm = h, weight_kg = w\<rparr> =
      Inr [(ascii ''bmi'', PFloat (Finite x)), (ascii ''category'', PStr (bmi_category b))]"
    by (rule bmi_route_finite)
next
  assume "h = PosInf \<or> h = NaN \<or> (\<exists>a. h = Finite a \<and> 2 powi (- 529) \<le> a)"
  then show "\<exists>h_m b. float_div h (Finite 100) = Some h_m \<and> \<not> float_le h_m 0
      \<and> float_div w (float_mul h_m h_m) = Some b"
    by (rule bmi_calc_divides)
next
  fix a v
  assume "h = Finite a \<and> 1 \<le> a \<and> w = Finite v \<and> \<bar>v\<bar> \<le> 2 powi 1000"
  then have h: "h = Finite a" and w: "w = Finite v" and a: "1 \<le> a" and v: "\<bar>v\<bar> \<le> 2 powi 1000"
    by blast+
  from bmi_route_returns [OF a v] show "\<exists>h_m b x.
        float_div h (Finite 100) = Some h_m \<and> \<not> float_le h_m 0
      \<and> float_div w (float_mul h_m h_m) = Some (Finite b)
      \<and> py_round1 (Finite b) = Finite x
      \<and> bmi_route \<lparr>height_cm = h, weight_kg = w\<rparr> =
          Inr [(ascii ''bmi'', PFloat (Finite x)),
               (ascii ''category'', PStr (bmi_category (Finite b)))]"
    unfolding h w .
qed

text \<open>
  The spec's example, 170 cm and 70 kg: the theorem applies, and the floats are the ones
  Python computes, 24.2 (the binary64 value nearest to it) in the normal band. A height
  of zero is rejected. A height of \<open>2^700\<close> centimetres is answered too.
\<close>

lemma example_170_70_route:
  "bmi_route \<lparr>height_cm = Finite 170, weight_kg = Finite 70\<rparr> =
     Inr [(ascii ''bmi'', PFloat (Finite (6811694436397875 / 2 ^ 48))),
          (ascii ''category'', PStr label_normal)]"
  using example_170_70 by (rule bmi_route_finite)

theorem bmi_calc_binary64_witness:
  "(1::rat) \<le> 170 \<and> \<bar>70::rat\<bar> \<le> 2 powi 1000
   \<and> (\<exists>h_m b x.
          float_div (Finite 170) (Finite 100) = Some h_m \<and> \<not> float_le h_m 0
        \<and> float_div (Finite 70) (float_mul h_m h_m) = Some (Finite b)
        \<and> py_round1 (Finite b) = Finite x
        \<and> bmi_route \<lparr>height_cm = Finite 170, weight_kg = Finite 70\<rparr> =
            Inr [(ascii ''bmi'', PFloat (Finite x)),
                 (ascii ''category'', PStr (bmi_category (Finite b)))])
   \<and> bmi_route \<lparr>height_cm = Finite 170, weight_kg = Finite 70\<rparr> =
        Inr [(ascii ''bmi'', PFloat (Finite (6811694436397875 / 2 ^ 48))),
             (ascii ''category'', PStr label_normal)]
   \<and> float_le (Finite 0) 0
   \<and> bmi_route \<lparr>height_cm = Finite 0, weight_kg = Finite 70\<rparr>
        = Inl (HTTPException 400 (ascii ''Height must be greater than 0''))
   \<and> (1::rat) \<le> 2 powi 700
   \<and> (\<exists>x c. bmi_route \<lparr>height_cm = Finite (2 powi 700), weight_kg = Finite 70\<rparr> =
          Inr [(ascii ''bmi'', PFloat (Finite x)), (ascii ''category'', PStr c)])"
proof -
  have "(2::rat) powi 0 \<le> 2 powi 700" "(2::rat) powi 7 \<le> 2 powi 1000"
    by (rule pow2_mono, simp)+
  then have a: "(1::rat) \<le> 2 powi 700" "\<bar>70::rat\<bar> \<le> 2 powi 1000"
    by simp_all
  have b: "(1::rat) \<le> 170" "float_le (Finite 0) 0"
    by simp_all
  note t1 = bmi_calc_binary64 [of "Finite 170" "Finite 70"]
  note t2 = bmi_calc_binary64 [of "Finite 0" "Finite 70"]
  note t3 = bmi_calc_binary64 [of "Finite (2 powi 700)" "Finite 70"]
  have c: "\<exists>h_m b x.
          float_div (Finite 170) (Finite 100) = Some h_m \<and> \<not> float_le h_m 0
        \<and> float_div (Finite 70) (float_mul h_m h_m) = Some (Finite b)
        \<and> py_round1 (Finite b) = Finite x
        \<and> bmi_route \<lparr>height_cm = Finite 170, weight_kg = Finite 70\<rparr> =
            Inr [(ascii ''bmi'', PFloat (Finite x)),
                 (ascii ''category'', PStr (bmi_category (Finite b)))]"
    using t1 a(2) b(1) by blast
  have d: "bmi_route \<lparr>height_cm = Finite 0, weight_kg = Finite 70\<rparr>
        = Inl (HTTPException 400 (ascii ''Height must be greater than 0''))"
    using t2 b(2) by blast
  have e: "\<exists>x c. bmi_route \<lparr>height_cm = Finite (2 powi 700), weight_kg = Finite 70\<rparr> =
          Inr [(ascii ''bmi'', PFloat (Finite x)), (ascii ''category'', PStr c)]"
    using t3 a by blast
  from a b c d e example_170_70_route show ?thesis
    by (simp only: simp_thms)
qed

text \<open>
  The claim as stated (rejected if and only if \<open>height_cm \<le> 0\<close>) fails at the least
  positive float, \<open>2^-1074\<close> (5e-324): it is a float, it is positive, its hundredth
  rounds to zero, and the request is rejected with status 400.
\<close>

theorem bmi_calc_rejects_positive_height:
  "fl (2 powi (- 1074)) = Finite (2 powi (- 1074))
   \<and> (0::rat) < 2 powi (- 1074)
   \<and> float_div (Finite (2 powi (- 1074))) (Finite 100) = Some (Finite 0)
   \<and> bmi_calc \<lparr>height_cm = Finite (2 powi (- 1074)), weight_kg = Finite 70\<rparr>
        = Inl (HTTPException 400 (ascii ''Height must be greater than 0''))
   \<and> bmi_route \<lparr>height_cm = Finite (2 powi (- 1074)), weight_kg = Finite 70\<rparr>
        = Inl (HTTPException 400 (ascii ''Height must be greater than 0''))"
proof -
  have "(2::rat) powi (- 1075 + 1) = 2 * 2 powi (- 1075)"
    by (rule pow2_Suc)
  then have eq: "(2::rat) powi (- 1074) = 2 * 2 powi (- 1075)"
    by simp
  have pos: "(0::rat) < 2 powi (- 1075)"
    by (rule pow2_pos)
  have le: "(2::rat) powi (- 1074) \<le> 100 * 2 powi (- 1075)"
    unfolding eq using pos by simp
  then have "float_le (Finite (2 powi (- 1074))) (100 * 2 powi (- 1075))"
    by (simp only: float_le.simps)
  then have rejected: "bmi_calc \<lparr>height_cm = Finite (2 powi (- 1074)), weight_kg = Finite 70\<rparr>
        = Inl (HTTPException 400 (ascii ''Height must be greater than 0''))"
    by (simp only: bmi_calc_rejects_iff)
  then have route: "bmi_route \<lparr>height_cm = Finite (2 powi (- 1074)), weight_kg = Finite 70\<rparr>
        = Inl (HTTPException 400 (ascii ''Height must be greater than 0''))"
    by (rule bmi_route_error)
  have "2 powi (- 1074) / 100 \<le> (2::rat) powi (- 1075)"
    unfolding eq using pos by simp
  moreover have "(0::rat) \<le> 2 powi (- 1074) / 100"
    using pow2_pos [of "- 1074"] by simp
  ultimately have "fl (2 powi (- 1074) / 100) = Finite 0"
    by (rule fl_tiny [rotated])
  then have "float_div (Finite (2 powi (- 1074))) (Finite 100) = Some (Finite 0)"
    by (simp del: power_int_numeral_neg_numeral)
  with rejected route fl_min_subnormal pow2_pos [of "- 1074"] show ?thesis
    by (simp only: simp_thms)
qed

text \<open>
  C10 at \<open>{"height_cm": 1e-200, "weight_kg": 70}\<close>. The float \<open>1e-200\<close> is
  \<open>1723641332219371 / 2^715\<close>: it is positive, its hundredth is a positive float, the
  square of that underflows to zero, and the division by it raises
  \<open>ZeroDivisionError\<close>, which no handler catches: the client gets status 500.
\<close>

theorem bmi_calc_tiny_height_raises:
  "fl (1723641332219371 / 2 ^ 715) = Finite (1723641332219371 / 2 ^ 715)
   \<and> (0::rat) < 1723641332219371 / 2 ^ 715
   \<and> fl 70 = Finite 70
   \<and> bmi_calc \<lparr>height_cm = Finite (1723641332219371 / 2 ^ 715), weight_kg = Finite 70\<rparr>
        = Inl ZeroDivisionError
   \<and> status_code ZeroDivisionError = 500"
proof -
  have "(100::rat) * 2 powi (- 1075) < 1723641332219371 / 2 ^ 715"
    "(1723641332219371::rat) / 2 ^ 715 \<le> 100 * 2 powi (- 539)"
    by simp_all
  from bmi_calc_raises [OF this, of "Finite 70"]
  have "bmi_calc \<lparr>height_cm = Finite (1723641332219371 / 2 ^ 715), weight_kg = Finite 70\<rparr>
        = Inl ZeroDivisionError"
    by blast
  moreover have "(0::rat) < 1723641332219371 / 2 ^ 715"
    by simp
  ultimately show ?thesis
    using fl_1e_200 fl_70 by simp
qed

text \<open>
  A weight of infinity at a height of one centimetre: the handler returns an infinite
  bmi, which the route cannot render.
\<close>

lemma bmi_route_infinite_weight:
  "bmi_route \<lparr>height_cm = Finite 1, weight_kg = PosInf\<rparr> = Inl ValueError"
proof -
  have "(2::rat) powi (- 500) \<le> 2 powi 0" "(2::rat) powi 0 \<le> 2 powi 500"
    by (rule pow2_mono, simp)+
  then have "2 powi (- 500) \<le> (1::rat)" "(1::rat) \<le> 2 powi 500"
    by (simp_all del: power_int_numeral_neg_numeral power_int_numeral)
  from bmi_calc_returns [OF this, of PosInf] obtain p bmi where "0 < p"
    and "float_div PosInf (Finite p) = Some bmi"
    and "bmi_calc \<lparr>height_cm = Finite 1, weight_kg = PosInf\<rparr> =
        Inr [(ascii ''bmi'', PFloat (py_round1 bmi)),
             (ascii ''category'', PStr (bmi_category bmi))]"
    by blast
  then have "bmi_calc \<lparr>height_cm = Finite 1, weight_kg = PosInf\<rparr> =
        Inr [(ascii ''bmi'', PFloat PosInf), (ascii ''category'', PStr (bmi_category PosInf))]"
    by auto
  then show ?thesis
    by (rule bmi_route_not_finite) simp
qed

end
